theory Spec2Isabelle
  imports Complex_Main
begin

section \<open>JavaScript numbers\<close>

text \<open>
  Every number of \<^verbatim>\<open>app.component.ts\<close> is a JavaScript \<^verbatim>\<open>number\<close>. The model keeps
  the three special values of that type, because the component produces them
  (\<^verbatim>\<open>Math.min()\<close> of no argument is \<^verbatim>\<open>Infinity\<close>, a division by a zero row span is
  \<^verbatim>\<open>Infinity\<close> or \<^verbatim>\<open>NaN\<close>), and takes the finite values as exact reals: rounding is
  not modelled, and neither is the sign of zero (the only divisor of the component is
  a difference of two grid indices, which is never the negative zero).
\<close>

datatype jsnum = Fin real | PosInf | NegInf | NaN

fun is_finite :: "jsnum \<Rightarrow> bool" where
  "is_finite (Fin _) = True"
| "is_finite _ = False"

fun js_neg :: "jsnum \<Rightarrow> jsnum" where
  "js_neg (Fin a) = Fin (- a)"
| "js_neg PosInf = NegInf"
| "js_neg NegInf = PosInf"
| "js_neg NaN = NaN"

fun js_add :: "jsnum \<Rightarrow> jsnum \<Rightarrow> jsnum" where
  "js_add (Fin a) (Fin b) = Fin (a + b)"
| "js_add NaN _ = NaN"
| "js_add _ NaN = NaN"
| "js_add PosInf NegInf = NaN"
| "js_add NegInf PosInf = NaN"
| "js_add PosInf _ = PosInf"
| "js_add _ PosInf = PosInf"
| "js_add NegInf _ = NegInf"
| "js_add _ NegInf = NegInf"

definition js_sub :: "jsnum \<Rightarrow> jsnum \<Rightarrow> jsnum" where
  "js_sub a b = js_add a (js_neg b)"

definition signed_inf :: "bool \<Rightarrow> jsnum" where
  "signed_inf positive = (if positive then PosInf else NegInf)"

fun js_mul :: "jsnum \<Rightarrow> jsnum \<Rightarrow> jsnum" where
  "js_mul (Fin a) (Fin b) = Fin (a * b)"
| "js_mul NaN _ = NaN"
| "js_mul _ NaN = NaN"
| "js_mul PosInf (Fin b) = (if b = 0 then NaN else signed_inf (0 < b))"
| "js_mul NegInf (Fin b) = (if b = 0 then NaN else signed_inf (b < 0))"
| "js_mul (Fin a) PosInf = (if a = 0 then NaN else signed_inf (0 < a))"
| "js_mul (Fin a) NegInf = (if a = 0 then NaN else signed_inf (a < 0))"
| "js_mul PosInf PosInf = PosInf"
| "js_mul NegInf NegInf = PosInf"
| "js_mul PosInf NegInf = NegInf"
| "js_mul NegInf PosInf = NegInf"

fun js_div :: "jsnum \<Rightarrow> jsnum \<Rightarrow> jsnum" where
  "js_div (Fin a) (Fin b) =
     (if b = 0 then (if a = 0 then NaN else signed_inf (0 < a)) else Fin (a / b))"
| "js_div NaN _ = NaN"
| "js_div _ NaN = NaN"
| "js_div (Fin a) PosInf = Fin 0"
| "js_div (Fin a) NegInf = Fin 0"
| "js_div PosInf (Fin b) = signed_inf (0 \<le> b)"
| "js_div NegInf (Fin b) = signed_inf (b < 0)"
| "js_div _ _ = NaN"

text \<open>The comparisons \<^verbatim>\<open><=\<close> and \<^verbatim>\<open><\<close>: false as soon as one side is \<^verbatim>\<open>NaN\<close>.\<close>

fun js_le :: "jsnum \<Rightarrow> jsnum \<Rightarrow> bool" where
  "js_le (Fin a) (Fin b) = (a \<le> b)"
| "js_le NaN _ = False"
| "js_le _ NaN = False"
| "js_le NegInf _ = True"
| "js_le _ PosInf = True"
| "js_le _ _ = False"

fun js_lt :: "jsnum \<Rightarrow> jsnum \<Rightarrow> bool" where
  "js_lt (Fin a) (Fin b) = (a < b)"
| "js_lt NaN _ = False"
| "js_lt _ NaN = False"
| "js_lt PosInf _ = False"
| "js_lt _ NegInf = False"
| "js_lt _ _ = True"

text \<open>
  \<^verbatim>\<open>Math.min(...xs)\<close> on a list of array positions; with no argument the result is
  \<^verbatim>\<open>Infinity\<close>.
\<close>

fun Math_min :: "nat list \<Rightarrow> jsnum" where
  "Math_min [] = PosInf"
| "Math_min (x # xs) = Fin (real (fold min xs x))"

text \<open>
  \<^verbatim>\<open>xs[v]\<close> for a number \<^verbatim>\<open>v\<close>: the element when \<^verbatim>\<open>v\<close> is an integer inside the array,
  \<^verbatim>\<open>undefined\<close> (here \<open>None\<close>) otherwise.
\<close>

definition array_get :: "'a list \<Rightarrow> jsnum \<Rightarrow> 'a option" where
  "array_get xs v =
     (case v of
        Fin r \<Rightarrow>
          (if 0 \<le> r \<and> r = of_int \<lfloor>r\<rfloor> \<and> nat \<lfloor>r\<rfloor> < length xs
           then Some (xs ! nat \<lfloor>r\<rfloor>) else None)
      | _ \<Rightarrow> None)"

section \<open>Data model of the component\<close>

datatype error = TypeError

text \<open>A bounding box \<^verbatim>\<open>[left, top, right, bottom]\<close>.\<close>

type_synonym box = "jsnum \<times> jsnum \<times> jsnum \<times> jsnum"

fun box0 :: "box \<Rightarrow> jsnum" where "box0 (l, t, r, b) = l"
fun box1 :: "box \<Rightarrow> jsnum" where "box1 (l, t, r, b) = t"
fun box2 :: "box \<Rightarrow> jsnum" where "box2 (l, t, r, b) = r"
fun box3 :: "box \<Rightarrow> jsnum" where "box3 (l, t, r, b) = b"

record grid_index =
  rowStart :: jsnum
  rowEnd :: jsnum
  columnStart :: jsnum
  columnEnd :: jsnum

text \<open>
  The fields of \<^verbatim>\<open>AppComponent\<close>. \<open>pos\<close> is the pair \<^verbatim>\<open>(x, y)\<close>. The last two fields
  are the resources the component holds in the browser: whether its
  \<^verbatim>\<open>ResizeObserver\<close> is connected, and how many \<^verbatim>\<open>requestAnimationFrame\<close> callbacks of
  the component are waiting for the next frame.
\<close>

record app_component =
  dragEnded :: bool
  pos :: "jsnum \<times> jsnum"
  index :: grid_index
  rows :: "string list"
  cols :: "string list"
  readyToAnimation :: bool
  rowsCoordsMap :: "string \<rightharpoonup> box"
  colsCoordsMap :: "string \<rightharpoonup> box"
  observing :: bool
  frameRequests :: nat

section \<open>The box-intersect routine\<close>

text \<open>
  Modelled from the spec: \<^verbatim>\<open>boxIntersect\<close> is imported from the package
  \<^verbatim>\<open>box-intersect\<close>, whose code is not among the sources. It reports, for a list of
  boxes, the pairs of list positions whose boxes overlap. The probe box of the resolver
  has zero area and must overlap the track that contains it, and both tracks of a shared
  boundary (sections 4.2 and 8 of the specification): boxes are products of closed
  intervals, and two boxes overlap when their intervals meet on both axes. A box with
  \<^verbatim>\<open>lo <= hi\<close> false on some axis is empty and takes part in no pair. Reading an
  \<^verbatim>\<open>undefined\<close> entry of the list is a \<^verbatim>\<open>TypeError\<close>. Each pair is the array
  \<^verbatim>\<open>[i, j]\<close>, here with \<open>i < j\<close>; the component does not depend on the order.
\<close>

definition boxEmpty :: "box \<Rightarrow> bool" where
  "boxEmpty b = (\<not> js_le (box0 b) (box2 b) \<or> \<not> js_le (box1 b) (box3 b))"

definition boxes_overlap :: "box \<Rightarrow> box \<Rightarrow> bool" where
  "boxes_overlap a b =
     (js_le (box0 a) (box2 b) \<and> js_le (box0 b) (box2 a) \<and>
      js_le (box1 a) (box3 b) \<and> js_le (box1 b) (box3 a))"

definition boxes_meet :: "box \<Rightarrow> box \<Rightarrow> bool" where
  "boxes_meet a b = (\<not> boxEmpty a \<and> \<not> boxEmpty b \<and> boxes_overlap a b)"

definition intersecting_pairs :: "box list \<Rightarrow> nat list list" where
  "intersecting_pairs bs =
     concat (map (\<lambda>i. map (\<lambda>j. [i, j])
                        (filter (\<lambda>j. boxes_meet (bs ! i) (bs ! j)) [Suc i..<length bs]))
                 [0..<length bs])"

definition boxIntersect :: "box option list \<Rightarrow> error + nat list list" where
  "boxIntersect boxes =
     (case those boxes of
        None \<Rightarrow> Inl TypeError
      | Some bs \<Rightarrow> Inr (intersecting_pairs bs))"

section \<open>The component\<close>

text \<open>
  A method that can throw returns \<open>Inl\<close> of the error or \<open>Inr\<close> of its value; a method
  that also assigns to fields returns the component as it is when the method returns or
  throws.
\<close>

definition animationLoop :: "app_component \<Rightarrow> app_component" where
  "animationLoop s =
     (let s1 = s\<lparr>frameRequests := Suc (frameRequests s)\<rparr>
      in if \<not> readyToAnimation s1 then s1
         else s1\<lparr>dragEnded := True, readyToAnimation := False\<rparr>)"

text \<open>
  The browser's side of \<^verbatim>\<open>requestAnimationFrame\<close>: at a frame, every waiting callback
  runs once; each of them is \<^verbatim>\<open>() => this.animationLoop()\<close>.
\<close>

definition animationFrame :: "app_component \<Rightarrow> app_component" where
  "animationFrame s = (animationLoop ^^ frameRequests s) (s\<lparr>frameRequests := 0\<rparr>)"

definition calcCenter :: "app_component \<Rightarrow> box \<Rightarrow> jsnum \<times> jsnum \<times> box" where
  "calcCenter s rect =
     (case rect of (left, top', right, bottom) \<Rightarrow>
        let rowSpan = js_sub (rowEnd (index s)) (rowStart (index s));
            horizontalCenter = js_add (js_mul (js_add left right) (Fin 0.5)) (fst (pos s));
            verticalCenter =
              js_add (js_add (js_mul (js_div (js_sub bottom top') rowSpan) (Fin 0.5)) top')
                     (snd (pos s))
        in (left, top', (horizontalCenter, verticalCenter, horizontalCenter, verticalCenter)))"

definition createCoordsArray :: "string list \<Rightarrow> (string \<rightharpoonup> box) \<Rightarrow> box option list" where
  "createCoordsArray idArray coordsMap =
     [Some (Fin 0, Fin 0, Fin 0, Fin 0)] @ map (\<lambda>ident. coordsMap ident) idArray"

definition intersectArrayIndex :: "box option list \<Rightarrow> error + jsnum" where
  "intersectArrayIndex coordsArray =
     (case boxIntersect coordsArray of
        Inl e \<Rightarrow> Inl e
      | Inr pairs \<Rightarrow>
          Inr (Math_min
                 (filter (\<lambda>x. x \<noteq> 0)
                    (foldl (\<lambda>acc x. acc @ x) []
                       (filter (\<lambda>x. find (\<lambda>y. y = 0) x \<noteq> None) pairs)))))"

definition updateRowIndex ::
  "app_component \<Rightarrow> box option list \<Rightarrow> (error + jsnum) \<times> app_component" where
  "updateRowIndex s rowsAxisCoords =
     (case intersectArrayIndex rowsAxisCoords of
        Inl e \<Rightarrow> (Inl e, s)
      | Inr nextRowStartIndex \<Rightarrow>
          (let s1 = s\<lparr>index := (index s)\<lparr>rowEnd :=
                      js_add (rowEnd (index s))
                             (js_sub nextRowStartIndex (rowStart (index s)))\<rparr>\<rparr>;
               s2 = s1\<lparr>index := (index s1)\<lparr>rowStart := nextRowStartIndex\<rparr>\<rparr>
           in (Inr nextRowStartIndex, s2)))"

definition updateColIndex ::
  "app_component \<Rightarrow> box option list \<Rightarrow> (error + jsnum) \<times> app_component" where
  "updateColIndex s colsAxisCoords =
     (case intersectArrayIndex colsAxisCoords of
        Inl e \<Rightarrow> (Inl e, s)
      | Inr nextColStartIndex \<Rightarrow>
          (let s1 = s\<lparr>index := (index s)\<lparr>columnEnd :=
                      js_add (columnEnd (index s))
                             (js_sub nextColStartIndex (columnStart (index s)))\<rparr>\<rparr>;
               s2 = s1\<lparr>index := (index s1)\<lparr>columnStart := nextColStartIndex\<rparr>\<rparr>
           in (Inr nextColStartIndex, s2)))"

definition updateIndices ::
  "app_component \<Rightarrow> box \<Rightarrow> (error + jsnum \<times> jsnum) \<times> app_component" where
  "updateIndices s centerCoords =
     (let rowsAxisCoords = (createCoordsArray (rows s) (rowsCoordsMap s))[0 := Some centerCoords];
          colsAxisCoords = (createCoordsArray (cols s) (colsCoordsMap s))[0 := Some centerCoords]
      in case updateRowIndex s rowsAxisCoords of
           (Inl e, s1) \<Rightarrow> (Inl e, s1)
         | (Inr row, s1) \<Rightarrow>
             (case updateColIndex s1 colsAxisCoords of
                (Inl e, s2) \<Rightarrow> (Inl e, s2)
              | (Inr col, s2) \<Rightarrow> (Inr (row, col), s2)))"

text \<open>
  \<^verbatim>\<open>coordsMap.get(ids[v])[k]\<close>: the array read gives \<^verbatim>\<open>undefined\<close> outside the array,
  \<^verbatim>\<open>get\<close> gives \<^verbatim>\<open>undefined\<close> for \<^verbatim>\<open>undefined\<close> and for an identifier that was never
  measured, and reading an element of \<^verbatim>\<open>undefined\<close> throws.
\<close>

definition cached_box :: "(string \<rightharpoonup> box) \<Rightarrow> string list \<Rightarrow> jsnum \<Rightarrow> error + box" where
  "cached_box coordsMap ids v =
     (case array_get ids v of
        None \<Rightarrow> Inl TypeError
      | Some ident \<Rightarrow> (case coordsMap ident of None \<Rightarrow> Inl TypeError | Some b \<Rightarrow> Inr b))"

text \<open>
  \<^verbatim>\<open>dragDropped\<close> reads the bounding rectangle of the dragged element, here the
  argument \<open>rect\<close>; the call \<^verbatim>\<open>drag.reset()\<close> acts on the gesture provider only.
\<close>

definition dragDropped :: "app_component \<Rightarrow> box \<Rightarrow> (error + unit) \<times> app_component" where
  "dragDropped s rect =
     (case calcCenter s rect of (left, top', center) \<Rightarrow>
        (case updateIndices s center of
           (Inl e, s1) \<Rightarrow> (Inl e, s1)
         | (Inr (row, col), s1) \<Rightarrow>
             (case cached_box (colsCoordsMap s1) (cols s1) (js_sub col (Fin 1)) of
                Inl e \<Rightarrow> (Inl e, s1)
              | Inr colBox \<Rightarrow>
                  (case cached_box (rowsCoordsMap s1) (rows s1) (js_sub row (Fin 1)) of
                     Inl e \<Rightarrow> (Inl e, s1)
                   | Inr rowBox \<Rightarrow>
                       (let destCoordX = box0 colBox;
                            destCoordY = box1 rowBox
                        in (Inr (),
                            s1\<lparr>pos := (js_sub (js_add left (fst (pos s1))) destCoordX,
                                       js_sub (js_add top' (snd (pos s1))) destCoordY),
                               readyToAnimation := True\<rparr>))))))"

definition ngOnDestroy :: "app_component \<Rightarrow> app_component" where
  "ngOnDestroy s = s\<lparr>observing := False\<rparr>"

section \<open>Notions used to state the properties\<close>

text \<open>
  The resolution of one axis, as \<^verbatim>\<open>updateIndices\<close> performs it: the array of
  \<^verbatim>\<open>createCoordsArray\<close>, its position 0 overwritten with the probe box, given to
  \<^verbatim>\<open>intersectArrayIndex\<close>. The specification calls it \<^verbatim>\<open>resolveIndex\<close>.
\<close>

definition resolveIndex :: "box \<Rightarrow> string list \<Rightarrow> (string \<rightharpoonup> box) \<Rightarrow> error + jsnum" where
  "resolveIndex queryBox idArray coordsMap =
     intersectArrayIndex ((createCoordsArray idArray coordsMap)[0 := Some queryBox])"

text \<open>The positions, from 1, of the track boxes that the probe box meets.\<close>

definition hits :: "box \<Rightarrow> box list \<Rightarrow> nat list" where
  "hits p bs = filter (\<lambda>j. boxes_meet p ((p # bs) ! j)) [1..<Suc (length bs)]"

text \<open>
  The grid index after \<^verbatim>\<open>updateRowIndex\<close> and \<^verbatim>\<open>updateColIndex\<close> have stored a
  resolved value, and the probe box that \<^verbatim>\<open>calcCenter\<close> builds for a drop.
\<close>

definition shift_rows :: "grid_index \<Rightarrow> jsnum \<Rightarrow> grid_index" where
  "shift_rows ix r = ix\<lparr>rowEnd := js_add (rowEnd ix) (js_sub r (rowStart ix)), rowStart := r\<rparr>"

definition shift_cols :: "grid_index \<Rightarrow> jsnum \<Rightarrow> grid_index" where
  "shift_cols ix c =
     ix\<lparr>columnEnd := js_add (columnEnd ix) (js_sub c (columnStart ix)), columnStart := c\<rparr>"

definition probe :: "app_component \<Rightarrow> box \<Rightarrow> box" where
  "probe s rect = snd (snd (calcCenter s rect))"

text \<open>
  Row tracks in sequence order, from top to bottom and without overlap: every track ends
  where a later one begins, or above. Adjacent tracks may share their boundary.
\<close>

definition stacked :: "box list \<Rightarrow> bool" where
  "stacked bs = sorted_wrt (\<lambda>a b. js_le (box3 a) (box1 b)) bs"

text \<open>Column tracks in sequence order, from left to right and without overlap.\<close>

definition side_by_side :: "box list \<Rightarrow> bool" where
  "side_by_side bs = sorted_wrt (\<lambda>a b. js_le (box2 a) (box0 b)) bs"

definition strictly_inside :: "jsnum \<Rightarrow> jsnum \<Rightarrow> box \<Rightarrow> bool" where
  "strictly_inside px py b =
     (js_lt (box0 b) px \<and> js_lt px (box2 b) \<and> js_lt (box1 b) py \<and> js_lt py (box3 b))"

subsection \<open>Example grids\<close>

text \<open>
  Three row tracks at the vertical ranges [0,10], [10,20], [20,30] (the end-to-end example
  of the specification), and a variant whose middle track has no height.
\<close>

definition track_ids :: "string list" where
  "track_ids = [''rowid_a'', ''rowid_b'', ''rowid_c'']"

definition track_boxes :: "box list" where
  "track_boxes = [(Fin 0, Fin 0, Fin 15, Fin 10), (Fin 0, Fin 10, Fin 15, Fin 20),
                  (Fin 0, Fin 20, Fin 15, Fin 30)]"

definition track_cache :: "string \<rightharpoonup> box" where
  "track_cache = map_of (zip track_ids track_boxes)"

definition flat_boxes :: "box list" where
  "flat_boxes = [(Fin 0, Fin 0, Fin 15, Fin 10), (Fin 0, Fin 10, Fin 15, Fin 10),
                 (Fin 0, Fin 10, Fin 15, Fin 20)]"

definition flat_cache :: "string \<rightharpoonup> box" where
  "flat_cache = map_of (zip track_ids flat_boxes)"

text \<open>
  Two column tracks at the horizontal ranges [0,5], [5,15], and the component of the
  end-to-end example, as it is after \<^verbatim>\<open>ngAfterViewInit\<close> (the resize observer is
  connected and \<^verbatim>\<open>animationLoop\<close> has registered its frame callback) and a drag: the
  element occupies rows 1 to 3 of column 1, its rectangle is \<open>example_rect\<close> and the drag
  has moved it by (4.5, 7), so that the centre used for the drop is (7, 12).
\<close>

definition col_ids :: "string list" where
  "col_ids = [''colid_a'', ''colid_b'']"

definition col_boxes :: "box list" where
  "col_boxes = [(Fin 0, Fin 0, Fin 5, Fin 30), (Fin 5, Fin 0, Fin 15, Fin 30)]"

definition col_cache :: "string \<rightharpoonup> box" where
  "col_cache = map_of (zip col_ids col_boxes)"

text \<open>Three column tracks at the horizontal ranges [0,5], [5,15], [15,25].\<close>

definition three_col_ids :: "string list" where
  "three_col_ids = [''colid_a'', ''colid_b'', ''colid_c'']"

definition three_col_boxes :: "box list" where
  "three_col_boxes = [(Fin 0, Fin 0, Fin 5, Fin 30), (Fin 5, Fin 0, Fin 15, Fin 30),
                      (Fin 15, Fin 0, Fin 25, Fin 30)]"

definition three_col_cache :: "string \<rightharpoonup> box" where
  "three_col_cache = map_of (zip three_col_ids three_col_boxes)"

definition example_grid :: app_component where
  "example_grid =
     \<lparr>dragEnded = False, pos = (Fin 4.5, Fin 7),
      index = \<lparr>rowStart = Fin 1, rowEnd = Fin 3, columnStart = Fin 1, columnEnd = Fin 1\<rparr>,
      rows = track_ids, cols = col_ids, readyToAnimation = False,
      rowsCoordsMap = track_cache, colsCoordsMap = col_cache,
      observing = True, frameRequests = 1\<rparr>"

definition example_rect :: box where
  "example_rect = (Fin 0, Fin 0, Fin 5, Fin 20)"

text \<open>
  Variants of the example: row tracks wider than the columns with a drop to the right of
  the last column; an element of zero row span; an element whose \<open>rowEnd\<close> is below its
  \<open>rowStart\<close>; the component of the example after its drop and \<^verbatim>\<open>ngOnDestroy\<close>.
\<close>

definition wide_boxes :: "box list" where
  "wide_boxes = [(Fin 0, Fin 0, Fin 40, Fin 10), (Fin 0, Fin 10, Fin 40, Fin 20),
                 (Fin 0, Fin 20, Fin 40, Fin 30)]"

definition wide_cache :: "string \<rightharpoonup> box" where
  "wide_cache = map_of (zip track_ids wide_boxes)"

definition wide_grid :: app_component where
  "wide_grid = example_grid\<lparr>pos := (Fin 17.5, Fin 7), rowsCoordsMap := wide_cache\<rparr>"

definition zero_span_grid :: app_component where
  "zero_span_grid =
     example_grid\<lparr>index := \<lparr>rowStart = Fin 1, rowEnd = Fin 1, columnStart = Fin 1,
                              columnEnd = Fin 1\<rparr>\<rparr>"

definition reversed_grid :: app_component where
  "reversed_grid =
     example_grid\<lparr>pos := (Fin 0, Fin 10),
                  index := \<lparr>rowStart = Fin 3, rowEnd = Fin 1, columnStart = Fin 1,
                              columnEnd = Fin 1\<rparr>\<rparr>"

text \<open>
  The example with a drag to the centre (50, 50), outside every track, and the example
  with an element that covers columns 1 to 2 (\<open>columnEnd = 2\<close>).
\<close>

definition far_grid :: app_component where
  "far_grid = example_grid\<lparr>pos := (Fin 47.5, Fin 45)\<rparr>"

definition spanning_grid :: app_component where
  "spanning_grid =
     example_grid\<lparr>index := \<lparr>rowStart = Fin 1, rowEnd = Fin 3, columnStart = Fin 1,
                              columnEnd = Fin 2\<rparr>\<rparr>"

definition torn_down :: app_component where
  "torn_down = ngOnDestroy (snd (dragDropped example_grid example_rect))"

section \<open>Lists, options and the minimum\<close>

lemma foldl_append_concat: "foldl (\<lambda>acc x. acc @ x) acc xss = acc @ concat xss"
  by (induction xss arbitrary: acc) simp_all

lemma those_map_Some: "those (map Some xs) = Some xs"
  by (induction xs) simp_all

lemma those_eq_Some: "those xs = Some ys \<longleftrightarrow> xs = map Some ys"
proof (induction xs arbitrary: ys)
  case Nil
  then show ?case by auto
next
  case (Cons a xs)
  then show ?case by (cases a) (auto split: option.splits)
qed

lemma Math_min_Min:
  assumes "xs \<noteq> []"
  shows "Math_min xs = Fin (real (Min (set xs)))"
proof (cases xs)
  case Nil
  with assms show ?thesis by simp
next
  case (Cons a list)
  then show ?thesis using Min.set_eq_fold [of a list] by simp
qed

lemma filter_concat_none:
  "(\<And>x y. x \<in> set xs \<Longrightarrow> y \<in> set (g x) \<Longrightarrow> \<not> P y) \<Longrightarrow> filter P (concat (map g xs)) = []"
  by (induction xs) (auto simp: filter_empty_conv)


lemma positions_of_zero_pairs:
  "0 \<notin> set js \<Longrightarrow> filter (\<lambda>x. x \<noteq> 0) (concat (map (\<lambda>j. [0, j]) js)) = js"
  by (induction js) auto

lemma probe_pairs:
  "filter (\<lambda>x. find (\<lambda>y. y = 0) x \<noteq> None) (intersecting_pairs (p # bs)) =
     map (\<lambda>j. [0, j]) (hits p bs)"
proof -
  let ?f = "\<lambda>i. map (\<lambda>j. [i, j])
              (filter (\<lambda>j. boxes_meet ((p # bs) ! i) ((p # bs) ! j)) [Suc i..<length (p # bs)])"
  let ?P = "\<lambda>x::nat list. find (\<lambda>y. y = 0) x \<noteq> None"
  have split: "[0..<length (p # bs)] = 0 # [1..<Suc (length bs)]"
    by (subst upt_rec) simp
  have rest: "filter ?P (concat (map ?f [1..<Suc (length bs)])) = []"
    by (rule filter_concat_none) auto
  have first: "filter ?P (?f 0) = ?f 0"
    by (auto simp: filter_id_conv)
  have "intersecting_pairs (p # bs) = ?f 0 @ concat (map ?f [1..<Suc (length bs)])"
    unfolding intersecting_pairs_def split by simp
  then have "filter ?P (intersecting_pairs (p # bs)) = ?f 0"
    using rest first by simp
  then show ?thesis by (simp add: hits_def)
qed

lemma intersectArrayIndex_probe:
  "intersectArrayIndex (Some p # map Some bs) = Inr (Math_min (hits p bs))"
proof -
  have t: "those (Some p # map Some bs) = Some (p # bs)"
    by (simp add: those_map_Some)
  have z: "0 \<notin> set (hits p bs)"
    by (auto simp: hits_def)
  have "intersectArrayIndex (Some p # map Some bs) =
          Inr (Math_min (filter (\<lambda>x. x \<noteq> 0) (foldl (\<lambda>acc x. acc @ x) []
            (filter (\<lambda>x. find (\<lambda>y. y = 0) x \<noteq> None) (intersecting_pairs (p # bs))))))"
    unfolding intersectArrayIndex_def boxIntersect_def t
    by (simp only: option.case sum.case)
  also have "\<dots> = Inr (Math_min (filter (\<lambda>x. x \<noteq> 0) (concat (map (\<lambda>j. [0, j]) (hits p bs)))))"
    by (simp only: probe_pairs foldl_append_concat append_Nil)
  also have "\<dots> = Inr (Math_min (hits p bs))"
    by (simp only: positions_of_zero_pairs [OF z])
  finally show ?thesis .
qed

lemma set_hits: "set (hits p bs) = {Suc i | i. i < length bs \<and> boxes_meet p (bs ! i)}"
proof (intro set_eqI iffI)
  fix j assume "j \<in> set (hits p bs)"
  then have j: "1 \<le> j" "j < Suc (length bs)" "boxes_meet p ((p # bs) ! j)"
    by (auto simp: hits_def)
  then obtain i where "j = Suc i" by (cases j) auto
  with j show "j \<in> {Suc i | i. i < length bs \<and> boxes_meet p (bs ! i)}" by auto
next
  fix j assume "j \<in> {Suc i | i. i < length bs \<and> boxes_meet p (bs ! i)}"
  then show "j \<in> set (hits p bs)" by (auto simp: hits_def)
qed

section \<open>Order of JavaScript numbers\<close>

lemma js_lt_imp_le: "js_lt a b \<Longrightarrow> js_le a b"
  by (cases a; cases b) simp_all

lemma js_lt_not_le: "js_lt a b \<Longrightarrow> \<not> js_le b a"
  by (cases a; cases b) simp_all

lemma js_le_trans: "js_le a b \<Longrightarrow> js_le b c \<Longrightarrow> js_le a c"
  by (cases a; cases b; cases c) simp_all

lemma js_le_lt_trans: "js_le a b \<Longrightarrow> js_lt b c \<Longrightarrow> js_lt a c"
  by (cases a; cases b; cases c) simp_all

lemma js_le_refl_left: "js_le a b \<Longrightarrow> js_le a a"
  by (cases a; cases b) simp_all

lemma js_le_refl_right: "js_le a b \<Longrightarrow> js_le b b"
  by (cases a; cases b) simp_all

section \<open>Resolution of one axis\<close>

lemma resolveIndex_probe:
  "resolveIndex q idArray coordsMap = intersectArrayIndex (Some q # map coordsMap idArray)"
  by (simp add: resolveIndex_def createCoordsArray_def)

lemma resolveIndex_cached:
  assumes "map coordsMap idArray = map Some bs"
  shows "resolveIndex q idArray coordsMap = Inr (Math_min (hits q bs))"
  by (simp only: resolveIndex_probe assms intersectArrayIndex_probe)

lemma resolveIndex_least:
  assumes cached: "map coordsMap idArray = map Some bs"
    and k: "k < length bs" "boxes_meet q (bs ! k)"
    and least: "\<And>i. i < k \<Longrightarrow> \<not> boxes_meet q (bs ! i)"
  shows "resolveIndex q idArray coordsMap = Inr (Fin (real (Suc k)))"
proof -
  let ?S = "{Suc i | i. i < length bs \<and> boxes_meet q (bs ! i)}"
  have mem: "Suc k \<in> ?S" using k by blast
  have fin: "finite ?S" by simp
  have low: "\<And>j. j \<in> ?S \<Longrightarrow> Suc k \<le> j"
    using least by (auto simp: not_less_eq_eq [symmetric] intro: leI)
  have "Min ?S = Suc k"
    by (rule Min_eqI [OF fin low mem])
  moreover have "hits q bs \<noteq> []"
    using mem set_hits [of q bs] by auto
  ultimately show ?thesis
    by (simp add: resolveIndex_cached [OF cached] Math_min_Min set_hits)
qed

lemma resolveIndex_none:
  assumes cached: "map coordsMap idArray = map Some bs"
    and none: "\<And>i. i < length bs \<Longrightarrow> \<not> boxes_meet q (bs ! i)"
  shows "resolveIndex q idArray coordsMap = Inr PosInf"
proof -
  have "set (hits q bs) = {}"
    using none by (auto simp: set_hits)
  then have "hits q bs = []" by simp
  then show ?thesis by (simp add: resolveIndex_cached [OF cached])
qed

lemma inside_meets:
  assumes "strictly_inside px py b"
  shows "boxes_meet (px, py, px, py) b"
  using assms
  by (auto simp: strictly_inside_def boxes_meet_def boxEmpty_def boxes_overlap_def
      dest: js_lt_imp_le js_le_refl_left js_le_refl_right
      intro: js_le_trans [OF js_lt_imp_le js_lt_imp_le])

lemma track_cache_map: "map track_cache track_ids = map Some track_boxes"
  by (simp add: track_cache_def track_ids_def track_boxes_def)

lemma flat_cache_map: "map flat_cache track_ids = map Some flat_boxes"
  by (simp add: flat_cache_def track_ids_def flat_boxes_def)

lemma stacked_track_boxes: "stacked track_boxes"
  by (simp add: stacked_def track_boxes_def)

lemma hits_eval:
  "hits q bs = map Suc (filter (\<lambda>i. boxes_meet q (bs ! i)) [0..<length bs])"
proof -
  have "[1..<Suc (length bs)] = map Suc [0..<length bs]"
    by (simp add: map_Suc_upt)
  then show ?thesis
    by (simp add: hits_def filter_map comp_def)
qed

lemma resolveIndex_min:
  assumes cached: "map coordsMap idArray = map Some bs"
    and some: "\<exists>i<length bs. boxes_meet q (bs ! i)"
  shows "resolveIndex q idArray coordsMap =
           Inr (Fin (real (Min {Suc i | i. i < length bs \<and> boxes_meet q (bs ! i)})))"
proof -
  have "hits q bs \<noteq> []"
    using set_hits [of q bs] some by auto
  then show ?thesis
    by (simp add: resolveIndex_cached [OF cached] Math_min_Min set_hits)
qed

lemma boundary_rows:
  assumes cached: "map coordsMap idArray = map Some bs"
    and stacked: "stacked bs"
    and k: "Suc k < length bs"
    and boundary: "box3 (bs ! k) = py"
    and meets: "boxes_meet (px, py, px, py) (bs ! k)"
    and height: "js_lt (box1 (bs ! k)) (box3 (bs ! k))"
  shows "resolveIndex (px, py, px, py) idArray coordsMap = Inr (Fin (real (Suc k)))"
proof -
  have k': "k < length bs" using k by simp
  have least: "\<not> boxes_meet (px, py, px, py) (bs ! i)" if "i < k" for i
  proof -
    have "js_le (box3 (bs ! i)) (box1 (bs ! k))"
      using that stacked k' by (simp add: stacked_def sorted_wrt_iff_nth_less)
    moreover have "js_lt (box1 (bs ! k)) py"
      using height boundary by simp
    ultimately have "js_lt (box3 (bs ! i)) py"
      by (rule js_le_lt_trans)
    then have "\<not> js_le py (box3 (bs ! i))"
      by (rule js_lt_not_le)
    then show ?thesis
      by (simp add: boxes_meet_def boxes_overlap_def)
  qed
  show ?thesis
    using cached k' meets least by (rule resolveIndex_least)
qed

lemma boundary_cols:
  assumes cached: "map coordsMap idArray = map Some bs"
    and side: "side_by_side bs"
    and k: "Suc k < length bs"
    and boundary: "box2 (bs ! k) = px"
    and meets: "boxes_meet (px, py, px, py) (bs ! k)"
    and width: "js_lt (box0 (bs ! k)) (box2 (bs ! k))"
  shows "resolveIndex (px, py, px, py) idArray coordsMap = Inr (Fin (real (Suc k)))"
proof -
  have k': "k < length bs" using k by simp
  have least: "\<not> boxes_meet (px, py, px, py) (bs ! i)" if "i < k" for i
  proof -
    have "js_le (box2 (bs ! i)) (box0 (bs ! k))"
      using that side k' by (simp add: side_by_side_def sorted_wrt_iff_nth_less)
    moreover have "js_lt (box0 (bs ! k)) px"
      using width boundary by simp
    ultimately have "js_lt (box2 (bs ! i)) px"
      by (rule js_le_lt_trans)
    then have "\<not> js_le px (box2 (bs ! i))"
      by (rule js_lt_not_le)
    then show ?thesis
      by (simp add: boxes_meet_def boxes_overlap_def)
  qed
  show ?thesis
    using cached k' meets least by (rule resolveIndex_least)
qed

lemma three_col_cache_map: "map three_col_cache three_col_ids = map Some three_col_boxes"
  by (simp add: three_col_cache_def three_col_ids_def three_col_boxes_def)

section \<open>The drop\<close>

lemma updateRowIndex_eq:
  "updateRowIndex s arr =
     (case intersectArrayIndex arr of
        Inl e \<Rightarrow> (Inl e, s)
      | Inr r \<Rightarrow> (Inr r, s\<lparr>index := shift_rows (index s) r\<rparr>))"
  by (simp add: updateRowIndex_def shift_rows_def Let_def split: sum.splits)

lemma updateColIndex_eq:
  "updateColIndex s arr =
     (case intersectArrayIndex arr of
        Inl e \<Rightarrow> (Inl e, s)
      | Inr c \<Rightarrow> (Inr c, s\<lparr>index := shift_cols (index s) c\<rparr>))"
  by (simp add: updateColIndex_def shift_cols_def Let_def split: sum.splits)

lemma updateIndices_eq:
  "updateIndices s q =
     (case resolveIndex q (rows s) (rowsCoordsMap s) of
        Inl e \<Rightarrow> (Inl e, s)
      | Inr row \<Rightarrow>
          (case resolveIndex q (cols s) (colsCoordsMap s) of
             Inl e \<Rightarrow> (Inl e, s\<lparr>index := shift_rows (index s) row\<rparr>)
           | Inr col \<Rightarrow>
               (Inr (row, col), s\<lparr>index := shift_cols (shift_rows (index s) row) col\<rparr>)))"
  by (simp add: updateIndices_def updateRowIndex_eq updateColIndex_eq resolveIndex_def Let_def
      split: sum.splits)

lemma calcCenter_parts:
  "calcCenter s rect = (box0 rect, box1 rect, probe s rect)"
  by (cases rect) (simp add: calcCenter_def probe_def Let_def)

lemma dragDropped_eq:
  "dragDropped s rect =
     (case resolveIndex (probe s rect) (rows s) (rowsCoordsMap s) of
        Inl e \<Rightarrow> (Inl e, s)
      | Inr row \<Rightarrow>
          (case resolveIndex (probe s rect) (cols s) (colsCoordsMap s) of
             Inl e \<Rightarrow> (Inl e, s\<lparr>index := shift_rows (index s) row\<rparr>)
           | Inr col \<Rightarrow>
               (case cached_box (colsCoordsMap s) (cols s) (js_sub col (Fin 1)) of
                  Inl e \<Rightarrow> (Inl e, s\<lparr>index := shift_cols (shift_rows (index s) row) col\<rparr>)
                | Inr colBox \<Rightarrow>
                    (case cached_box (rowsCoordsMap s) (rows s) (js_sub row (Fin 1)) of
                       Inl e \<Rightarrow> (Inl e, s\<lparr>index := shift_cols (shift_rows (index s) row) col\<rparr>)
                     | Inr rowBox \<Rightarrow>
                         (Inr (),
                          s\<lparr>index := shift_cols (shift_rows (index s) row) col,
                            pos := (js_sub (js_add (box0 rect) (fst (pos s))) (box0 colBox),
                                    js_sub (js_add (box1 rect) (snd (pos s))) (box1 rowBox)),
                            readyToAnimation := True\<rparr>)))))"
  by (simp add: dragDropped_def calcCenter_parts updateIndices_eq Let_def split: sum.splits)

lemma Math_min_cases:
  "Math_min xs = PosInf \<and> xs = [] \<or> (\<exists>j \<in> set xs. Math_min xs = Fin (real j))"
proof (cases "xs = []")
  case True
  then show ?thesis by simp
next
  case False
  then have "Min (set xs) \<in> set xs" by (intro Min_in) simp_all
  with False show ?thesis by (auto simp: Math_min_Min)
qed

lemma resolveIndex_Inr:
  assumes "resolveIndex q idArray coordsMap = Inr v"
  shows "(\<forall>t \<in> set idArray. coordsMap t \<noteq> None) \<and>
         (v = PosInf \<or> (\<exists>j. v = Fin (real j) \<and> 1 \<le> j \<and> j \<le> length idArray))"
proof -
  from assms obtain cs where cs: "those (Some q # map coordsMap idArray) = Some cs"
    by (auto simp: resolveIndex_probe intersectArrayIndex_def boxIntersect_def
        split: option.splits simp del: those.simps)
  then obtain bs where bs: "map coordsMap idArray = map Some bs"
    by (cases cs) (auto simp: those_eq_Some)
  then have len: "length bs = length idArray"
    by (metis length_map)
  have cached: "\<forall>t \<in> set idArray. coordsMap t \<noteq> None"
  proof
    fix t assume "t \<in> set idArray"
    then have "coordsMap t \<in> set (map Some bs)"
      using bs [symmetric] by auto
    then show "coordsMap t \<noteq> None" by auto
  qed
  have v: "v = Math_min (hits q bs)"
    using assms resolveIndex_cached [OF bs, of q] by simp
  have "v = PosInf \<or> (\<exists>j. v = Fin (real j) \<and> 1 \<le> j \<and> j \<le> length idArray)"
    using Math_min_cases [of "hits q bs"] set_hits [of q bs] len v
    by auto
  with cached show ?thesis by simp
qed

lemma array_get_nat:
  "array_get xs (js_sub (Fin (real j)) (Fin 1)) =
     (if 1 \<le> j \<and> j \<le> length xs then Some (xs ! (j - 1)) else None)"
proof (cases j)
  case 0
  then show ?thesis by (simp add: array_get_def js_sub_def)
next
  case (Suc n)
  then have "js_sub (Fin (real j)) (Fin 1) = Fin (real n)"
    by (simp add: js_sub_def)
  then show ?thesis
    using Suc by (auto simp: array_get_def)
qed

lemma cached_box_PosInf: "cached_box m ids (js_sub PosInf (Fin 1)) = Inl TypeError"
  by (simp add: cached_box_def array_get_def js_sub_def)

lemma cached_box_nat:
  assumes "1 \<le> j" "j \<le> length ids" "\<forall>t \<in> set ids. m t \<noteq> None"
  shows "\<exists>b. m (ids ! (j - 1)) = Some b \<and>
             cached_box m ids (js_sub (Fin (real j)) (Fin 1)) = Inr b"
proof -
  have "ids ! (j - 1) \<in> set ids" using assms(1,2) by simp
  then obtain b where b: "m (ids ! (j - 1)) = Some b" using assms(3) by blast
  have "array_get ids (js_sub (Fin (real j)) (Fin 1)) = Some (ids ! (j - 1))"
    using assms(1,2) by (simp add: array_get_nat)
  then have "cached_box m ids (js_sub (Fin (real j)) (Fin 1)) = Inr b"
    unfolding cached_box_def using b by simp
  with b show ?thesis by blast
qed


lemma col_cache_map: "map col_cache col_ids = map Some col_boxes"
  by (simp add: col_cache_def col_ids_def col_boxes_def)

lemma example_probe: "probe example_grid example_rect = (Fin 7, Fin 12, Fin 7, Fin 12)"
  by (simp add: probe_def calcCenter_def example_grid_def example_rect_def js_sub_def Let_def)

lemma example_rows_resolve:
  "resolveIndex (Fin 7, Fin 12, Fin 7, Fin 12) track_ids track_cache = Inr (Fin 2)"
  by (simp add: resolveIndex_cached [OF track_cache_map] hits_eval)
     (simp add: track_boxes_def boxes_meet_def boxEmpty_def boxes_overlap_def)

lemma example_cols_resolve:
  "resolveIndex (Fin 7, Fin 12, Fin 7, Fin 12) col_ids col_cache = Inr (Fin 2)"
  by (simp add: resolveIndex_cached [OF col_cache_map] hits_eval)
     (simp add: col_boxes_def boxes_meet_def boxEmpty_def boxes_overlap_def)

lemma example_drop:
  "dragDropped example_grid example_rect =
     (Inr (),
      example_grid\<lparr>index := \<lparr>rowStart = Fin 2, rowEnd = Fin 4, columnStart = Fin 2, columnEnd = Fin 2\<rparr>,
                   pos := (Fin (- 0.5), Fin (- 3)), readyToAnimation := True\<rparr>)"
proof -
  have rows: "resolveIndex (probe example_grid example_rect) (rows example_grid)
                (rowsCoordsMap example_grid) = Inr (Fin 2)"
    using example_rows_resolve by (simp add: example_probe) (simp add: example_grid_def)
  have cols: "resolveIndex (probe example_grid example_rect) (cols example_grid)
                (colsCoordsMap example_grid) = Inr (Fin 2)"
    using example_cols_resolve by (simp add: example_probe) (simp add: example_grid_def)
  have cb: "cached_box (colsCoordsMap example_grid) (cols example_grid) (js_sub (Fin 2) (Fin 1)) =
              Inr (Fin 5, Fin 0, Fin 15, Fin 30)"
    by (simp add: example_grid_def cached_box_def array_get_def js_sub_def col_ids_def
        col_cache_def col_boxes_def)
  have rb: "cached_box (rowsCoordsMap example_grid) (rows example_grid) (js_sub (Fin 2) (Fin 1)) =
              Inr (Fin 0, Fin 10, Fin 15, Fin 20)"
    by (simp add: example_grid_def cached_box_def array_get_def js_sub_def track_ids_def
        track_cache_def track_boxes_def)
  show ?thesis
    by (simp add: dragDropped_eq rows cols cb rb)
       (simp add: shift_rows_def shift_cols_def example_grid_def example_rect_def js_sub_def)
qed


lemma error_is_TypeError: "(e::error) = TypeError"
  by (cases e) simp

lemma dragDropped_success:
  assumes ok: "fst (dragDropped s rect) = Inr ()"
  shows "\<exists>r c rb cb.
           1 \<le> r \<and> r \<le> length (rows s) \<and> 1 \<le> c \<and> c \<le> length (cols s) \<and>
           resolveIndex (probe s rect) (rows s) (rowsCoordsMap s) = Inr (Fin (real r)) \<and>
           resolveIndex (probe s rect) (cols s) (colsCoordsMap s) = Inr (Fin (real c)) \<and>
           rowsCoordsMap s (rows s ! (r - 1)) = Some rb \<and>
           colsCoordsMap s (cols s ! (c - 1)) = Some cb \<and>
           snd (dragDropped s rect) =
             s\<lparr>index := shift_cols (shift_rows (index s) (Fin (real r))) (Fin (real c)),
               pos := (js_sub (js_add (box0 rect) (fst (pos s))) (box0 cb),
                       js_sub (js_add (box1 rect) (snd (pos s))) (box1 rb)),
               readyToAnimation := True\<rparr>"
proof -
  from ok obtain row col colBox rowBox where
    row: "resolveIndex (probe s rect) (rows s) (rowsCoordsMap s) = Inr row" and
    col: "resolveIndex (probe s rect) (cols s) (colsCoordsMap s) = Inr col" and
    cbx: "cached_box (colsCoordsMap s) (cols s) (js_sub col (Fin 1)) = Inr colBox" and
    rbx: "cached_box (rowsCoordsMap s) (rows s) (js_sub row (Fin 1)) = Inr rowBox"
    by (auto simp: dragDropped_eq split: sum.splits)
  have res: "snd (dragDropped s rect) =
             s\<lparr>index := shift_cols (shift_rows (index s) row) col,
               pos := (js_sub (js_add (box0 rect) (fst (pos s))) (box0 colBox),
                       js_sub (js_add (box1 rect) (snd (pos s))) (box1 rowBox)),
               readyToAnimation := True\<rparr>"
    by (simp add: dragDropped_eq row col cbx rbx)
  from resolveIndex_Inr [OF row] rbx obtain r where
    r: "row = Fin (real r)" "1 \<le> r" "r \<le> length (rows s)" and
    rcached: "\<forall>t \<in> set (rows s). rowsCoordsMap s t \<noteq> None"
    by (auto simp: cached_box_PosInf)
  from resolveIndex_Inr [OF col] cbx obtain c where
    c: "col = Fin (real c)" "1 \<le> c" "c \<le> length (cols s)" and
    ccached: "\<forall>t \<in> set (cols s). colsCoordsMap s t \<noteq> None"
    by (auto simp: cached_box_PosInf)
  from cached_box_nat [OF r(2,3) rcached] rbx r(1)
  have rb: "rowsCoordsMap s (rows s ! (r - 1)) = Some rowBox" by auto
  from cached_box_nat [OF c(2,3) ccached] cbx c(1)
  have cb: "colsCoordsMap s (cols s ! (c - 1)) = Some colBox" by auto
  show ?thesis
    using r c rb cb row col res by blast
qed


lemma drop_resolved:
  assumes row: "resolveIndex (probe s rect) (rows s) (rowsCoordsMap s) = Inr (Fin (real r))"
    and col: "resolveIndex (probe s rect) (cols s) (colsCoordsMap s) = Inr (Fin (real c))"
  shows "\<exists>rb cb.
           1 \<le> r \<and> r \<le> length (rows s) \<and> 1 \<le> c \<and> c \<le> length (cols s) \<and>
           rowsCoordsMap s (rows s ! (r - 1)) = Some rb \<and>
           colsCoordsMap s (cols s ! (c - 1)) = Some cb \<and>
           dragDropped s rect =
             (Inr (),
              s\<lparr>index := shift_cols (shift_rows (index s) (Fin (real r))) (Fin (real c)),
                pos := (js_sub (js_add (box0 rect) (fst (pos s))) (box0 cb),
                        js_sub (js_add (box1 rect) (snd (pos s))) (box1 rb)),
                readyToAnimation := True\<rparr>)"
proof -
  from resolveIndex_Inr [OF row] have
    r: "1 \<le> r" "r \<le> length (rows s)" and
    rcached: "\<forall>t \<in> set (rows s). rowsCoordsMap s t \<noteq> None"
    by auto
  from resolveIndex_Inr [OF col] have
    c: "1 \<le> c" "c \<le> length (cols s)" and
    ccached: "\<forall>t \<in> set (cols s). colsCoordsMap s t \<noteq> None"
    by auto
  from cached_box_nat [OF r rcached] obtain rb where
    rb: "rowsCoordsMap s (rows s ! (r - 1)) = Some rb"
      "cached_box (rowsCoordsMap s) (rows s) (js_sub (Fin (real r)) (Fin 1)) = Inr rb"
    by blast
  from cached_box_nat [OF c ccached] obtain cb where
    cb: "colsCoordsMap s (cols s ! (c - 1)) = Some cb"
      "cached_box (colsCoordsMap s) (cols s) (js_sub (Fin (real c)) (Fin 1)) = Inr cb"
    by blast
  have "dragDropped s rect =
             (Inr (),
              s\<lparr>index := shift_cols (shift_rows (index s) (Fin (real r))) (Fin (real c)),
                pos := (js_sub (js_add (box0 rect) (fst (pos s))) (box0 cb),
                        js_sub (js_add (box1 rect) (snd (pos s))) (box1 rb)),
                readyToAnimation := True\<rparr>)"
    by (simp add: dragDropped_eq row col rb(2) cb(2))
  with r c rb(1) cb(1) show ?thesis by blast
qed

lemma example_rows: "resolveIndex (probe example_grid example_rect) (rows example_grid)
                (rowsCoordsMap example_grid) = Inr (Fin (real 2))"
  using example_rows_resolve by (simp add: example_probe) (simp add: example_grid_def)

lemma example_cols: "resolveIndex (probe example_grid example_rect) (cols example_grid)
                (colsCoordsMap example_grid) = Inr (Fin (real 2))"
  using example_cols_resolve by (simp add: example_probe) (simp add: example_grid_def)

lemma wide_cache_map: "map wide_cache track_ids = map Some wide_boxes"
  by (simp add: wide_cache_def track_ids_def wide_boxes_def)

lemma wide_probe: "probe wide_grid example_rect = (Fin 20, Fin 12, Fin 20, Fin 12)"
  by (simp add: probe_def calcCenter_def wide_grid_def example_grid_def example_rect_def
      js_sub_def Let_def)

lemma wide_rows:
  "resolveIndex (probe wide_grid example_rect) (rows wide_grid) (rowsCoordsMap wide_grid) =
     Inr (Fin 2)"
proof -
  have "resolveIndex (Fin 20, Fin 12, Fin 20, Fin 12) track_ids wide_cache = Inr (Fin 2)"
    by (simp add: resolveIndex_cached [OF wide_cache_map] hits_eval)
       (simp add: wide_boxes_def boxes_meet_def boxEmpty_def boxes_overlap_def)
  then show ?thesis
    by (simp add: wide_probe) (simp add: wide_grid_def example_grid_def)
qed

lemma wide_cols:
  "resolveIndex (probe wide_grid example_rect) (cols wide_grid) (colsCoordsMap wide_grid) =
     Inr PosInf"
proof -
  have "resolveIndex (Fin 20, Fin 12, Fin 20, Fin 12) col_ids col_cache = Inr PosInf"
    by (simp add: resolveIndex_cached [OF col_cache_map] hits_eval)
       (simp add: col_boxes_def boxes_meet_def boxEmpty_def boxes_overlap_def)
  then show ?thesis
    by (simp add: wide_probe) (simp add: wide_grid_def example_grid_def)
qed

lemma wide_drop_faults: "fst (dragDropped wide_grid example_rect) = Inl TypeError"
  by (simp add: dragDropped_eq wide_rows wide_cols cached_box_PosInf)

section \<open>Arithmetic with a zero row span\<close>

lemma js_sub_self: "js_sub a a = Fin 0 \<or> js_sub a a = NaN"
  by (cases a) (simp_all add: js_sub_def)

lemma js_div_zero_not_finite: "d = Fin 0 \<or> d = NaN \<Longrightarrow> \<not> is_finite (js_div n d)"
  by (cases n) (auto simp: signed_inf_def split: if_splits)

lemma js_mul_not_finite: "\<not> is_finite a \<Longrightarrow> \<not> is_finite (js_mul a (Fin (1 / 2)))"
  by (cases a) (simp_all add: signed_inf_def)

lemma js_add_not_finite: "\<not> is_finite a \<Longrightarrow> \<not> is_finite (js_add a b)"
  by (cases a; cases b) simp_all

lemma js_half: "js_mul a (Fin 0.5) = js_div a (Fin 2)"
  by (cases a) (simp_all add: signed_inf_def)

lemma probe_vertical:
  "box1 (probe s (left, top', right, bottom)) =
     js_add (js_add (js_mul (js_div (js_sub bottom top')
                                    (js_sub (rowEnd (index s)) (rowStart (index s))))
                            (Fin (1 / 2))) top')
            (snd (pos s))"
  by (simp add: probe_def calcCenter_def Let_def)

lemma probe_corners: "box3 (probe s rect) = box1 (probe s rect)"
  by (cases rect) (simp add: probe_def calcCenter_def Let_def)

lemma not_finite_no_meet:
  assumes "\<not> is_finite (box1 q)" "box3 q = box1 q" "is_finite (box1 b)" "is_finite (box3 b)"
  shows "\<not> boxes_meet q b"
  using assms
  by (cases "box1 q"; cases "box1 b"; cases "box3 b")
     (auto simp: boxes_meet_def boxes_overlap_def)

lemma drop_row_PosInf_faults:
  assumes "resolveIndex (probe s rect) (rows s) (rowsCoordsMap s) = Inr PosInf"
  shows "fst (dragDropped s rect) = Inl TypeError"
  using assms
  by (auto simp: dragDropped_eq cached_box_PosInf error_is_TypeError split: sum.splits)

lemma zero_span_finite_rows:
  "\<forall>t \<in> set (rows zero_span_grid). \<forall>b. rowsCoordsMap zero_span_grid t = Some b \<longrightarrow>
      is_finite (box1 b) \<and> is_finite (box3 b)"
  by (auto simp: zero_span_grid_def example_grid_def track_ids_def track_cache_def
      track_boxes_def)

lemma reversed_probe:
  "probe reversed_grid example_rect = (Fin 2.5, Fin 5, Fin 2.5, Fin 5)"
  by (simp add: probe_def calcCenter_def reversed_grid_def example_grid_def example_rect_def
      js_sub_def Let_def)

lemma animationFrame_one:
  "frameRequests s = 1 \<Longrightarrow> animationFrame s = animationLoop (s\<lparr>frameRequests := 0\<rparr>)"
  by (simp add: animationFrame_def)

lemma drop_col_PosInf_faults:
  assumes "resolveIndex (probe s rect) (cols s) (colsCoordsMap s) = Inr PosInf"
  shows "fst (dragDropped s rect) = Inl TypeError"
  using assms
  by (auto simp: dragDropped_eq cached_box_PosInf error_is_TypeError split: sum.splits)

lemma drop_row_PosInf_index:
  assumes "resolveIndex (probe s rect) (rows s) (rowsCoordsMap s) = Inr PosInf"
  shows "rowStart (index (snd (dragDropped s rect))) = PosInf"
  using assms
  by (auto simp: dragDropped_eq cached_box_PosInf shift_rows_def shift_cols_def
      split: sum.splits)

lemma drop_col_PosInf_index:
  assumes "resolveIndex (probe s rect) (cols s) (colsCoordsMap s) = Inr PosInf"
    and "resolveIndex (probe s rect) (rows s) (rowsCoordsMap s) = Inr r"
  shows "columnStart (index (snd (dragDropped s rect))) = PosInf"
  using assms
  by (auto simp: dragDropped_eq cached_box_PosInf shift_rows_def shift_cols_def
      split: sum.splits)

lemma far_probe: "probe far_grid example_rect = (Fin 50, Fin 50, Fin 50, Fin 50)"
  by (simp add: probe_def calcCenter_def far_grid_def example_grid_def example_rect_def
      js_sub_def Let_def)

lemma spanning_probe: "probe spanning_grid example_rect = (Fin 7, Fin 12, Fin 7, Fin 12)"
  by (simp add: probe_def calcCenter_def spanning_grid_def example_grid_def example_rect_def
      js_sub_def Let_def)

lemma spanning_rows: "resolveIndex (probe spanning_grid example_rect) (rows spanning_grid)
                (rowsCoordsMap spanning_grid) = Inr (Fin (real 2))"
  using example_rows_resolve
  by (simp add: spanning_probe) (simp add: spanning_grid_def example_grid_def)

lemma spanning_cols: "resolveIndex (probe spanning_grid example_rect) (cols spanning_grid)
                (colsCoordsMap spanning_grid) = Inr (Fin (real 2))"
  using example_cols_resolve
  by (simp add: spanning_probe) (simp add: spanning_grid_def example_grid_def)

lemma spanning_drop:
  "fst (dragDropped spanning_grid example_rect) = Inr () \<and>
   index (snd (dragDropped spanning_grid example_rect)) =
     \<lparr>rowStart = Fin 2, rowEnd = Fin 4, columnStart = Fin 2, columnEnd = Fin 3\<rparr>"
proof -
  from drop_resolved [OF spanning_rows spanning_cols] obtain rb cb where
    "dragDropped spanning_grid example_rect =
       (Inr (),
        spanning_grid\<lparr>index := shift_cols (shift_rows (index spanning_grid) (Fin (real 2)))
                                            (Fin (real 2)),
          pos := (js_sub (js_add (box0 example_rect) (fst (pos spanning_grid))) (box0 cb),
                  js_sub (js_add (box1 example_rect) (snd (pos spanning_grid))) (box1 rb)),
          readyToAnimation := True\<rparr>)"
    by blast
  then show ?thesis
    by (simp add: shift_rows_def shift_cols_def spanning_grid_def js_sub_def)
qed

text \<open>
  C1. The cached boxes of the tracks are \<open>bs\<close>, in sequence order, every track having its
  box in the cache; they are stacked from top to bottom without overlap; the query point
  \<open>(px, py)\<close> is strictly inside the box of the track at position \<open>k\<close> of the sequence
  (counted from 0, so it is track \<open>k + 1\<close> of the grid). Then the resolution, with the
  probe box \<open>(px, py, px, py)\<close> at position 0, returns \<open>k + 1\<close>.
\<close>

theorem resolveIndex_strictly_inside:
  assumes cached: "map coordsMap idArray = map Some bs"
    and stacked: "stacked bs"
    and k: "k < length bs"
    and inside: "strictly_inside px py (bs ! k)"
  shows "resolveIndex (px, py, px, py) idArray coordsMap = Inr (Fin (real (Suc k)))"
proof (rule resolveIndex_least [OF cached k])
  show "boxes_meet (px, py, px, py) (bs ! k)"
    using inside by (rule inside_meets)
next
  fix i assume i: "i < k"
  then have "js_le (box3 (bs ! i)) (box1 (bs ! k))"
    using stacked k by (simp add: stacked_def sorted_wrt_iff_nth_less)
  moreover have "js_lt (box1 (bs ! k)) py"
    using inside by (simp add: strictly_inside_def)
  ultimately have "js_lt (box3 (bs ! i)) py"
    by (rule js_le_lt_trans)
  then have "\<not> js_le py (box3 (bs ! i))"
    by (rule js_lt_not_le)
  then show "\<not> boxes_meet (px, py, px, py) (bs ! i)"
    by (simp add: boxes_meet_def boxes_overlap_def)
qed


theorem resolveIndex_strictly_inside_witness:
  "stacked track_boxes \<and> strictly_inside (Fin 7) (Fin 12) (track_boxes ! 1) \<and>
   resolveIndex (Fin 7, Fin 12, Fin 7, Fin 12) track_ids track_cache = Inr (Fin 2)"
proof -
  have k: "(1::nat) < length track_boxes" by (simp add: track_boxes_def)
  have inside: "strictly_inside (Fin 7) (Fin 12) (track_boxes ! 1)"
    by (simp add: strictly_inside_def track_boxes_def)
  show ?thesis
    using resolveIndex_strictly_inside [OF track_cache_map stacked_track_boxes k inside] stacked_track_boxes inside
    by simp
qed

text \<open>
  C2, as the claim states it, fails when track \<open>k\<close> has no height: the point on the
  boundary between tracks 2 and 3 of \<open>flat_boxes\<close> meets both of them and also track 1,
  and the resolution returns 1.
\<close>

theorem boundary_flat_track_counterexample:
  "stacked flat_boxes \<and> box3 (flat_boxes ! 1) = Fin 10 \<and> box1 (flat_boxes ! 2) = Fin 10 \<and>
   boxes_meet (Fin 7, Fin 10, Fin 7, Fin 10) (flat_boxes ! 1) \<and>
   boxes_meet (Fin 7, Fin 10, Fin 7, Fin 10) (flat_boxes ! 2) \<and>
   resolveIndex (Fin 7, Fin 10, Fin 7, Fin 10) track_ids flat_cache = Inr (Fin 1)"
  by (simp add: resolveIndex_cached [OF flat_cache_map] hits_eval)
     (simp add: flat_boxes_def stacked_def boxes_meet_def boxEmpty_def boxes_overlap_def)

text \<open>
  C2, amended. Whenever the probe box meets at least one cached track box, the resolution
  returns the minimum of the positions of the tracks that it meets. For a query point on
  the boundary shared by the tracks at positions \<open>k\<close> and \<open>k + 1\<close> of the sequence
  (counted from 0), whose probe box meets both, that minimum is the smaller index of the
  two whenever the earlier track has an extent along the axis: a height for rows stacked
  from top to bottom, a width for columns laid from left to right.
\<close>

theorem resolveIndex_boundary:
  assumes cached: "map coordsMap idArray = map Some bs"
  shows "((\<exists>i<length bs. boxes_meet q (bs ! i)) \<longrightarrow>
            resolveIndex q idArray coordsMap =
              Inr (Fin (real (Min {Suc i | i. i < length bs \<and> boxes_meet q (bs ! i)})))) \<and>
         (stacked bs \<and> Suc k < length bs \<and>
          box3 (bs ! k) = py \<and> box1 (bs ! Suc k) = py \<and>
          boxes_meet (px, py, px, py) (bs ! k) \<and> boxes_meet (px, py, px, py) (bs ! Suc k) \<and>
          js_lt (box1 (bs ! k)) (box3 (bs ! k)) \<longrightarrow>
            resolveIndex (px, py, px, py) idArray coordsMap = Inr (Fin (real (Suc k)))) \<and>
         (side_by_side bs \<and> Suc k < length bs \<and>
          box2 (bs ! k) = px \<and> box0 (bs ! Suc k) = px \<and>
          boxes_meet (px, py, px, py) (bs ! k) \<and> boxes_meet (px, py, px, py) (bs ! Suc k) \<and>
          js_lt (box0 (bs ! k)) (box2 (bs ! k)) \<longrightarrow>
            resolveIndex (px, py, px, py) idArray coordsMap = Inr (Fin (real (Suc k))))"
proof (intro conjI impI)
  assume "\<exists>i<length bs. boxes_meet q (bs ! i)"
  with cached show "resolveIndex q idArray coordsMap =
      Inr (Fin (real (Min {Suc i | i. i < length bs \<and> boxes_meet q (bs ! i)})))"
    by (rule resolveIndex_min)
next
  assume "stacked bs \<and> Suc k < length bs \<and>
          box3 (bs ! k) = py \<and> box1 (bs ! Suc k) = py \<and>
          boxes_meet (px, py, px, py) (bs ! k) \<and> boxes_meet (px, py, px, py) (bs ! Suc k) \<and>
          js_lt (box1 (bs ! k)) (box3 (bs ! k))"
  then have "stacked bs" "Suc k < length bs" "box3 (bs ! k) = py"
    "boxes_meet (px, py, px, py) (bs ! k)" "js_lt (box1 (bs ! k)) (box3 (bs ! k))"
    by blast+
  with cached show "resolveIndex (px, py, px, py) idArray coordsMap = Inr (Fin (real (Suc k)))"
    by (rule boundary_rows)
next
  assume "side_by_side bs \<and> Suc k < length bs \<and>
          box2 (bs ! k) = px \<and> box0 (bs ! Suc k) = px \<and>
          boxes_meet (px, py, px, py) (bs ! k) \<and> boxes_meet (px, py, px, py) (bs ! Suc k) \<and>
          js_lt (box0 (bs ! k)) (box2 (bs ! k))"
  then have "side_by_side bs" "Suc k < length bs" "box2 (bs ! k) = px"
    "boxes_meet (px, py, px, py) (bs ! k)" "js_lt (box0 (bs ! k)) (box2 (bs ! k))"
    by blast+
  with cached show "resolveIndex (px, py, px, py) idArray coordsMap = Inr (Fin (real (Suc k)))"
    by (rule boundary_cols)
qed

theorem resolveIndex_boundary_witness:
  "resolveIndex (Fin 7, Fin 20, Fin 7, Fin 20) track_ids track_cache = Inr (Fin 2) \<and>
   resolveIndex (Fin 7, Fin 20, Fin 7, Fin 20) track_ids track_cache =
     Inr (Fin (real (Min {Suc i | i. i < length track_boxes \<and>
                                  boxes_meet (Fin 7, Fin 20, Fin 7, Fin 20) (track_boxes ! i)}))) \<and>
   resolveIndex (Fin 15, Fin 12, Fin 15, Fin 12) three_col_ids three_col_cache = Inr (Fin 2)"
proof -
  have rows: "stacked track_boxes \<and> Suc 1 < length track_boxes \<and>
      box3 (track_boxes ! 1) = Fin 20 \<and> box1 (track_boxes ! Suc 1) = Fin 20 \<and>
      boxes_meet (Fin 7, Fin 20, Fin 7, Fin 20) (track_boxes ! 1) \<and>
      boxes_meet (Fin 7, Fin 20, Fin 7, Fin 20) (track_boxes ! Suc 1) \<and>
      js_lt (box1 (track_boxes ! 1)) (box3 (track_boxes ! 1))"
    by (simp add: stacked_track_boxes)
       (simp add: track_boxes_def boxes_meet_def boxEmpty_def boxes_overlap_def)
  then have some: "\<exists>i<length track_boxes. boxes_meet (Fin 7, Fin 20, Fin 7, Fin 20) (track_boxes ! i)"
    by (intro exI [of _ 1]) (simp add: track_boxes_def)
  have cols: "side_by_side three_col_boxes \<and> Suc 1 < length three_col_boxes \<and>
      box2 (three_col_boxes ! 1) = Fin 15 \<and> box0 (three_col_boxes ! Suc 1) = Fin 15 \<and>
      boxes_meet (Fin 15, Fin 12, Fin 15, Fin 12) (three_col_boxes ! 1) \<and>
      boxes_meet (Fin 15, Fin 12, Fin 15, Fin 12) (three_col_boxes ! Suc 1) \<and>
      js_lt (box0 (three_col_boxes ! 1)) (box2 (three_col_boxes ! 1))"
    by (simp add: three_col_boxes_def side_by_side_def boxes_meet_def boxEmpty_def
        boxes_overlap_def)
  from resolveIndex_boundary [OF track_cache_map, of "(Fin 7, Fin 20, Fin 7, Fin 20)" 1 "Fin 20" "Fin 7"] rows some
  have a: "resolveIndex (Fin 7, Fin 20, Fin 7, Fin 20) track_ids track_cache =
     Inr (Fin (real (Min {Suc i | i. i < length track_boxes \<and>
                                  boxes_meet (Fin 7, Fin 20, Fin 7, Fin 20) (track_boxes ! i)})))"
    and b: "resolveIndex (Fin 7, Fin 20, Fin 7, Fin 20) track_ids track_cache = Inr (Fin (real (Suc 1)))"
    by blast+
  from resolveIndex_boundary [OF three_col_cache_map, of "(Fin 15, Fin 12, Fin 15, Fin 12)" 1 "Fin 12" "Fin 15"] cols
  have c: "resolveIndex (Fin 15, Fin 12, Fin 15, Fin 12) three_col_ids three_col_cache =
      Inr (Fin (real (Suc 1)))"
    by blast
  from a b c show ?thesis by simp
qed


text \<open>
  C3, as the claim states it, fails: for a query point outside every track box of the
  example, nothing is signalled; the resolution returns \<^verbatim>\<open>Infinity\<close> as its value.
\<close>

theorem outside_point_counterexample:
  "\<not> boxes_meet (Fin 50, Fin 50, Fin 50, Fin 50) (track_boxes ! 0) \<and>
   \<not> boxes_meet (Fin 50, Fin 50, Fin 50, Fin 50) (track_boxes ! 1) \<and>
   \<not> boxes_meet (Fin 50, Fin 50, Fin 50, Fin 50) (track_boxes ! 2) \<and>
   resolveIndex (Fin 50, Fin 50, Fin 50, Fin 50) track_ids track_cache = Inr PosInf"
  by (simp add: resolveIndex_cached [OF track_cache_map] hits_eval)
     (simp add: track_boxes_def boxes_meet_def boxEmpty_def boxes_overlap_def)

text \<open>
  C3, amended. When every track has its box in the cache and the probe box meets none of
  them, the resolution returns \<^verbatim>\<open>Infinity\<close>, the minimum of no argument, and
  \<^verbatim>\<open>updateRowIndex\<close> and \<^verbatim>\<open>updateColIndex\<close> store that value as \<open>rowStart\<close> and
  \<open>columnStart\<close> and return it: nothing is signalled there. A drop whose probe box meets
  no row track, or no column track, ends in a \<^verbatim>\<open>TypeError\<close>, raised by the cache lookup
  of \<^verbatim>\<open>dragDropped\<close>, and leaves \<^verbatim>\<open>Infinity\<close> in \<open>rowStart\<close>, or in \<open>columnStart\<close> when
  the row resolution has returned.
\<close>

theorem resolveIndex_outside:
  assumes cached: "map coordsMap idArray = map Some bs"
    and none: "\<forall>i<length bs. \<not> boxes_meet q (bs ! i)"
  shows "resolveIndex q idArray coordsMap = Inr PosInf \<and>
         updateRowIndex s ((createCoordsArray idArray coordsMap)[0 := Some q]) =
           (Inr PosInf, s\<lparr>index := (index s)\<lparr>rowEnd := js_add (rowEnd (index s))
                              (js_sub PosInf (rowStart (index s))), rowStart := PosInf\<rparr>\<rparr>) \<and>
         updateColIndex s ((createCoordsArray idArray coordsMap)[0 := Some q]) =
           (Inr PosInf, s\<lparr>index := (index s)\<lparr>columnEnd := js_add (columnEnd (index s))
                              (js_sub PosInf (columnStart (index s))), columnStart := PosInf\<rparr>\<rparr>) \<and>
         (rows s = idArray \<and> rowsCoordsMap s = coordsMap \<and> probe s rect = q \<longrightarrow>
            fst (dragDropped s rect) = Inl TypeError \<and>
            rowStart (index (snd (dragDropped s rect))) = PosInf) \<and>
         (cols s = idArray \<and> colsCoordsMap s = coordsMap \<and> probe s rect = q \<longrightarrow>
            fst (dragDropped s rect) = Inl TypeError \<and>
            (\<forall>r. resolveIndex q (rows s) (rowsCoordsMap s) = Inr r \<longrightarrow>
                 columnStart (index (snd (dragDropped s rect))) = PosInf))"
proof -
  have res: "resolveIndex q idArray coordsMap = Inr PosInf"
    using cached none by (intro resolveIndex_none) auto
  then have arr: "intersectArrayIndex ((createCoordsArray idArray coordsMap)[0 := Some q]) =
      Inr PosInf"
    by (simp add: resolveIndex_def)
  have upd: "updateRowIndex s ((createCoordsArray idArray coordsMap)[0 := Some q]) =
           (Inr PosInf, s\<lparr>index := (index s)\<lparr>rowEnd := js_add (rowEnd (index s))
                              (js_sub PosInf (rowStart (index s))), rowStart := PosInf\<rparr>\<rparr>)"
    "updateColIndex s ((createCoordsArray idArray coordsMap)[0 := Some q]) =
           (Inr PosInf, s\<lparr>index := (index s)\<lparr>columnEnd := js_add (columnEnd (index s))
                              (js_sub PosInf (columnStart (index s))), columnStart := PosInf\<rparr>\<rparr>)"
    using arr by (simp_all add: updateRowIndex_eq updateColIndex_eq shift_rows_def shift_cols_def)
  have rowsP: "fst (dragDropped s rect) = Inl TypeError \<and>
            rowStart (index (snd (dragDropped s rect))) = PosInf"
    if "rows s = idArray \<and> rowsCoordsMap s = coordsMap \<and> probe s rect = q"
  proof -
    from that res have "resolveIndex (probe s rect) (rows s) (rowsCoordsMap s) = Inr PosInf"
      by blast
    then show ?thesis
      by (simp add: drop_row_PosInf_faults drop_row_PosInf_index)
  qed
  have colsP: "fst (dragDropped s rect) = Inl TypeError \<and>
            (\<forall>r. resolveIndex q (rows s) (rowsCoordsMap s) = Inr r \<longrightarrow>
                 columnStart (index (snd (dragDropped s rect))) = PosInf)"
    if h: "cols s = idArray \<and> colsCoordsMap s = coordsMap \<and> probe s rect = q"
  proof -
    from h res have c: "resolveIndex (probe s rect) (cols s) (colsCoordsMap s) = Inr PosInf"
      by blast
    have "columnStart (index (snd (dragDropped s rect))) = PosInf"
      if "resolveIndex q (rows s) (rowsCoordsMap s) = Inr r" for r
    proof -
      from that h have "resolveIndex (probe s rect) (rows s) (rowsCoordsMap s) = Inr r"
        by blast
      with c show ?thesis by (rule drop_col_PosInf_index)
    qed
    with c show ?thesis
      by (simp add: drop_col_PosInf_faults)
  qed
  from res upd rowsP colsP show ?thesis by blast
qed

theorem resolveIndex_outside_witness:
  "resolveIndex (Fin 50, Fin 50, Fin 50, Fin 50) track_ids track_cache = Inr PosInf \<and>
   resolveIndex (Fin 50, Fin 50, Fin 50, Fin 50) col_ids col_cache = Inr PosInf \<and>
   fst (dragDropped far_grid example_rect) = Inl TypeError \<and>
   rowStart (index (snd (dragDropped far_grid example_rect))) = PosInf \<and>
   columnStart (index (snd (dragDropped far_grid example_rect))) = PosInf"
proof -
  let ?q = "(Fin 50, Fin 50, Fin 50, Fin 50)"
  have none_rows: "\<forall>i<length track_boxes. \<not> boxes_meet ?q (track_boxes ! i)"
    by (simp add: track_boxes_def boxes_meet_def boxEmpty_def boxes_overlap_def
        less_Suc_eq all_conj_distrib)
  have none_cols: "\<forall>i<length col_boxes. \<not> boxes_meet ?q (col_boxes ! i)"
    by (simp add: col_boxes_def boxes_meet_def boxEmpty_def boxes_overlap_def
        less_Suc_eq all_conj_distrib)
  have r: "rows far_grid = track_ids \<and> rowsCoordsMap far_grid = track_cache \<and>
      probe far_grid example_rect = ?q"
    by (simp add: far_probe) (simp add: far_grid_def example_grid_def)
  have c: "cols far_grid = col_ids \<and> colsCoordsMap far_grid = col_cache \<and>
      probe far_grid example_rect = ?q"
    by (simp add: far_probe) (simp add: far_grid_def example_grid_def)
  note rows_part = resolveIndex_outside [OF track_cache_map none_rows, of far_grid example_rect]
  note cols_part = resolveIndex_outside [OF col_cache_map none_cols, of far_grid example_rect]
  from rows_part r have 1: "resolveIndex ?q track_ids track_cache = Inr PosInf"
    "fst (dragDropped far_grid example_rect) = Inl TypeError"
    "rowStart (index (snd (dragDropped far_grid example_rect))) = PosInf"
    by blast+
  from r 1(1) have rr: "resolveIndex ?q (rows far_grid) (rowsCoordsMap far_grid) = Inr PosInf"
    by simp
  from cols_part c rr have 2: "resolveIndex ?q col_ids col_cache = Inr PosInf"
    "columnStart (index (snd (dragDropped far_grid example_rect))) = PosInf"
    by blast+
  from 1 2 show ?thesis by blast
qed

text \<open>
  C4, as the claim states it, fails on the end-to-end example of the specification: the
  grid has 3 row tracks and the drop, which succeeds, leaves \<open>rowEnd = 4\<close>.
\<close>

theorem drop_rowEnd_counterexample:
  "fst (dragDropped example_grid example_rect) = Inr () \<and>
   length (rows example_grid) = 3 \<and>
   rowEnd (index (snd (dragDropped example_grid example_rect))) = Fin 4 \<and>
   \<not> js_le (rowEnd (index (snd (dragDropped example_grid example_rect))))
            (Fin (real (length (rows example_grid))))"
  by (simp add: example_drop) (simp add: example_grid_def track_ids_def)

text \<open>
  C4, amended. After every successful drop, \<open>rowStart\<close> lies within \<open>[1, N]\<close> and
  \<open>columnStart\<close> within \<open>[1, M]\<close>, for \<open>N\<close> row tracks and \<open>M\<close> column tracks. The end
  fields are not clamped: when the index held finite numbers before the drop, \<open>rowEnd\<close> is
  the new \<open>rowStart\<close> plus the row span of before, and \<open>columnEnd\<close> the new \<open>columnStart\<close>
  plus the column span of before; when moreover these spans were not negative, \<open>rowEnd\<close>
  lies between the new \<open>rowStart\<close> and \<open>N\<close> plus the row span, and \<open>columnEnd\<close> between
  the new \<open>columnStart\<close> and \<open>M\<close> plus the column span. Both can exceed \<open>N\<close> and \<open>M\<close>: with
  3 rows, 2 columns and the index \<open>{1, 3, 1, 2}\<close>, the drop on row 2 and column 2 leaves
  \<open>rowEnd = 4\<close> and \<open>columnEnd = 3\<close>.
\<close>

theorem drop_index_bounds:
  assumes ok: "fst (dragDropped s rect) = Inr ()"
  shows "js_le (Fin 1) (rowStart (index (snd (dragDropped s rect)))) \<and>
         js_le (rowStart (index (snd (dragDropped s rect)))) (Fin (real (length (rows s)))) \<and>
         js_le (Fin 1) (columnStart (index (snd (dragDropped s rect)))) \<and>
         js_le (columnStart (index (snd (dragDropped s rect)))) (Fin (real (length (cols s)))) \<and>
         (\<forall>a b. rowStart (index s) = Fin a \<and> rowEnd (index s) = Fin b \<longrightarrow>
            rowEnd (index (snd (dragDropped s rect))) =
              js_add (rowStart (index (snd (dragDropped s rect)))) (Fin (b - a))) \<and>
         (\<forall>a b. columnStart (index s) = Fin a \<and> columnEnd (index s) = Fin b \<longrightarrow>
            columnEnd (index (snd (dragDropped s rect))) =
              js_add (columnStart (index (snd (dragDropped s rect)))) (Fin (b - a))) \<and>
         (\<forall>a b. rowStart (index s) = Fin a \<and> rowEnd (index s) = Fin b \<and> a \<le> b \<longrightarrow>
            js_le (rowStart (index (snd (dragDropped s rect))))
                  (rowEnd (index (snd (dragDropped s rect)))) \<and>
            js_le (rowEnd (index (snd (dragDropped s rect))))
                  (Fin (real (length (rows s)) + (b - a)))) \<and>
         (\<forall>a b. columnStart (index s) = Fin a \<and> columnEnd (index s) = Fin b \<and> a \<le> b \<longrightarrow>
            js_le (columnStart (index (snd (dragDropped s rect))))
                  (columnEnd (index (snd (dragDropped s rect)))) \<and>
            js_le (columnEnd (index (snd (dragDropped s rect))))
                  (Fin (real (length (cols s)) + (b - a))))"
proof -
  from dragDropped_success [OF ok] obtain r c rb cb where
    r: "1 \<le> r" "r \<le> length (rows s)" and c: "1 \<le> c" "c \<le> length (cols s)" and
    res: "snd (dragDropped s rect) =
             s\<lparr>index := shift_cols (shift_rows (index s) (Fin (real r))) (Fin (real c)),
               pos := (js_sub (js_add (box0 rect) (fst (pos s))) (box0 cb),
                       js_sub (js_add (box1 rect) (snd (pos s))) (box1 rb)),
               readyToAnimation := True\<rparr>"
    by blast
  show ?thesis
    using r c by (simp add: res shift_rows_def shift_cols_def js_sub_def)
qed

theorem drop_index_bounds_witness:
  "fst (dragDropped spanning_grid example_rect) = Inr () \<and>
   length (rows spanning_grid) = 3 \<and> length (cols spanning_grid) = 2 \<and>
   js_le (Fin 1) (rowStart (index (snd (dragDropped spanning_grid example_rect)))) \<and>
   js_le (rowStart (index (snd (dragDropped spanning_grid example_rect)))) (Fin 3) \<and>
   js_le (Fin 1) (columnStart (index (snd (dragDropped spanning_grid example_rect)))) \<and>
   js_le (columnStart (index (snd (dragDropped spanning_grid example_rect)))) (Fin 2) \<and>
   rowEnd (index (snd (dragDropped spanning_grid example_rect))) =
     js_add (rowStart (index (snd (dragDropped spanning_grid example_rect)))) (Fin (3 - 1)) \<and>
   columnEnd (index (snd (dragDropped spanning_grid example_rect))) =
     js_add (columnStart (index (snd (dragDropped spanning_grid example_rect)))) (Fin (2 - 1)) \<and>
   js_le (rowEnd (index (snd (dragDropped spanning_grid example_rect)))) (Fin (3 + (3 - 1))) \<and>
   js_le (columnEnd (index (snd (dragDropped spanning_grid example_rect)))) (Fin (2 + (2 - 1))) \<and>
   rowEnd (index (snd (dragDropped spanning_grid example_rect))) = Fin 4 \<and>
   columnEnd (index (snd (dragDropped spanning_grid example_rect))) = Fin 3"
proof -
  have ok: "fst (dragDropped spanning_grid example_rect) = Inr ()"
    by (simp add: spanning_drop)
  have n: "length (rows spanning_grid) = 3" "length (cols spanning_grid) = 2"
    by (simp_all add: spanning_grid_def example_grid_def track_ids_def col_ids_def)
  have ix: "rowStart (index spanning_grid) = Fin 1 \<and> rowEnd (index spanning_grid) = Fin 3"
    "columnStart (index spanning_grid) = Fin 1 \<and> columnEnd (index spanning_grid) = Fin 2"
    "(1::real) \<le> 3" "(1::real) \<le> 2"
    by (simp_all add: spanning_grid_def)
  note b = drop_index_bounds [OF ok, unfolded n]
  from b have starts:
    "js_le (Fin 1) (rowStart (index (snd (dragDropped spanning_grid example_rect))))"
    "js_le (rowStart (index (snd (dragDropped spanning_grid example_rect)))) (Fin (real 3))"
    "js_le (Fin 1) (columnStart (index (snd (dragDropped spanning_grid example_rect))))"
    "js_le (columnStart (index (snd (dragDropped spanning_grid example_rect)))) (Fin (real 2))"
    by blast+
  from b ix have ends:
    "rowEnd (index (snd (dragDropped spanning_grid example_rect))) =
       js_add (rowStart (index (snd (dragDropped spanning_grid example_rect)))) (Fin (3 - 1))"
    "columnEnd (index (snd (dragDropped spanning_grid example_rect))) =
       js_add (columnStart (index (snd (dragDropped spanning_grid example_rect)))) (Fin (2 - 1))"
    "js_le (rowEnd (index (snd (dragDropped spanning_grid example_rect)))) (Fin (real 3 + (3 - 1)))"
    "js_le (columnEnd (index (snd (dragDropped spanning_grid example_rect)))) (Fin (real 2 + (2 - 1)))"
    by blast+
  from ok n starts ends show ?thesis
    by (simp add: spanning_drop)
qed

text \<open>
  C5. For every drop whose resolutions give the row \<open>r\<close> and the column \<open>c\<close>, the index
  after the drop has \<open>rowStart = r\<close> and \<open>columnStart = c\<close>, \<open>rowEnd\<close> and \<open>columnEnd\<close> are
  shifted by \<open>r - rowStart\<close> and \<open>c - columnStart\<close> of the index before, and both spans
  are those of the index before. The spans are compared as values of the model: they are
  the same finite number when the index before the drop holds finite numbers.
\<close>

theorem drop_preserves_spans:
  assumes row: "resolveIndex (probe s rect) (rows s) (rowsCoordsMap s) = Inr (Fin (real r))"
    and col: "resolveIndex (probe s rect) (cols s) (colsCoordsMap s) = Inr (Fin (real c))"
  shows "index (snd (dragDropped s rect)) =
           \<lparr>rowStart = Fin (real r),
            rowEnd = js_add (rowEnd (index s)) (js_sub (Fin (real r)) (rowStart (index s))),
            columnStart = Fin (real c),
            columnEnd = js_add (columnEnd (index s)) (js_sub (Fin (real c)) (columnStart (index s)))\<rparr> \<and>
         js_sub (rowEnd (index (snd (dragDropped s rect))))
                (rowStart (index (snd (dragDropped s rect)))) =
           js_sub (rowEnd (index s)) (rowStart (index s)) \<and>
         js_sub (columnEnd (index (snd (dragDropped s rect))))
                (columnStart (index (snd (dragDropped s rect)))) =
           js_sub (columnEnd (index s)) (columnStart (index s))"
proof -
  from drop_resolved [OF row col] obtain rb cb where
    res: "dragDropped s rect =
             (Inr (),
              s\<lparr>index := shift_cols (shift_rows (index s) (Fin (real r))) (Fin (real c)),
                pos := (js_sub (js_add (box0 rect) (fst (pos s))) (box0 cb),
                        js_sub (js_add (box1 rect) (snd (pos s))) (box1 rb)),
                readyToAnimation := True\<rparr>)"
    by blast
  have span: "js_sub (js_add b (js_sub (Fin x) a)) (Fin x) = js_sub b a" for a b x
    by (cases a; cases b) (simp_all add: js_sub_def)
  show ?thesis
    by (simp add: res shift_rows_def shift_cols_def span)
qed


theorem drop_preserves_spans_witness:
  "index (snd (dragDropped example_grid example_rect)) =
     \<lparr>rowStart = Fin 2, rowEnd = Fin 4, columnStart = Fin 2, columnEnd = Fin 2\<rparr> \<and>
   js_sub (rowEnd (index (snd (dragDropped example_grid example_rect))))
          (rowStart (index (snd (dragDropped example_grid example_rect)))) = Fin 2 \<and>
   js_sub (columnEnd (index (snd (dragDropped example_grid example_rect))))
          (columnStart (index (snd (dragDropped example_grid example_rect)))) = Fin 0"
proof -
  have old: "index example_grid =
      \<lparr>rowStart = Fin 1, rowEnd = Fin 3, columnStart = Fin 1, columnEnd = Fin 1\<rparr>"
    by (simp add: example_grid_def)
  show ?thesis
    using drop_preserves_spans [OF example_rows example_cols]
    by (simp add: old js_sub_def)
qed

text \<open>
  C6. \<^verbatim>\<open>calcCenter\<close> returns the left and top edges of the element and the probe box
  \<open>(h, v, h, v)\<close>, where \<open>h = (left + right) / 2 + pos.x\<close> and
  \<open>v = (bottom - top) / rowSpan * 0.5 + top + pos.y\<close> with \<open>rowSpan = rowEnd - rowStart\<close>.
  This holds for all number values; for finite numbers and a row span other than zero
  the two coordinates are the finite numbers that these formulas denote.
\<close>

theorem calcCenter_probe:
  "calcCenter s (left, top', right, bottom) =
     (let rowSpan = js_sub (rowEnd (index s)) (rowStart (index s));
          horizontal = js_add (js_div (js_add left right) (Fin 2)) (fst (pos s));
          vertical = js_add (js_add (js_mul (js_div (js_sub bottom top') rowSpan) (Fin 0.5)) top')
                            (snd (pos s))
      in (left, top', (horizontal, vertical, horizontal, vertical))) \<and>
   (rowStart (index s) = Fin rs \<and> rowEnd (index s) = Fin re \<and> re \<noteq> rs \<and>
    pos s = (Fin x, Fin y) \<longrightarrow>
      calcCenter s (Fin l, Fin t, Fin r, Fin b) =
        (Fin l, Fin t,
         (Fin ((l + r) / 2 + x), Fin ((b - t) / (re - rs) * 0.5 + t + y),
          Fin ((l + r) / 2 + x), Fin ((b - t) / (re - rs) * 0.5 + t + y))))"
proof (intro conjI impI)
  show "calcCenter s (left, top', right, bottom) =
     (let rowSpan = js_sub (rowEnd (index s)) (rowStart (index s));
          horizontal = js_add (js_div (js_add left right) (Fin 2)) (fst (pos s));
          vertical = js_add (js_add (js_mul (js_div (js_sub bottom top') rowSpan) (Fin 0.5)) top')
                            (snd (pos s))
      in (left, top', (horizontal, vertical, horizontal, vertical)))"
    by (simp add: calcCenter_def Let_def js_half [symmetric])
next
  assume fin: "rowStart (index s) = Fin rs \<and> rowEnd (index s) = Fin re \<and> re \<noteq> rs \<and>
    pos s = (Fin x, Fin y)"
  then have span: "js_sub (rowEnd (index s)) (rowStart (index s)) = Fin (re - rs)" "re - rs \<noteq> 0"
    by (simp_all add: js_sub_def)
  show "calcCenter s (Fin l, Fin t, Fin r, Fin b) =
        (Fin l, Fin t,
         (Fin ((l + r) / 2 + x), Fin ((b - t) / (re - rs) * 0.5 + t + y),
          Fin ((l + r) / 2 + x), Fin ((b - t) / (re - rs) * 0.5 + t + y)))"
    using fin span(2) by (simp add: calcCenter_def Let_def span(1)) (simp add: js_sub_def)
qed

theorem calcCenter_probe_witness:
  "calcCenter example_grid example_rect = (Fin 0, Fin 0, (Fin 7, Fin 12, Fin 7, Fin 12))"
proof -
  have fin: "rowStart (index example_grid) = Fin 1 \<and> rowEnd (index example_grid) = Fin 3 \<and>
    (3::real) \<noteq> 1 \<and> pos example_grid = (Fin 4.5, Fin 7)"
    by (simp add: example_grid_def)
  from calcCenter_probe [of example_grid "Fin 0" "Fin 0" "Fin 5" "Fin 20" 1 3 "4.5" 7 0 0 5 20] fin
  have "calcCenter example_grid (Fin 0, Fin 0, Fin 5, Fin 20) =
        (Fin 0, Fin 0,
         (Fin ((0 + 5) / 2 + 4.5), Fin ((20 - 0) / (3 - 1) * 0.5 + 0 + 7),
          Fin ((0 + 5) / 2 + 4.5), Fin ((20 - 0) / (3 - 1) * 0.5 + 0 + 7)))"
    by blast
  then show ?thesis
    by (simp add: example_rect_def)
qed

text \<open>
  C7. For every drop whose resolutions give the row \<open>r\<close> and the column \<open>c\<close>, both tracks
  have their boxes in the caches, the drop completes, and the new offset is
  \<open>(left + pos.x - x, top + pos.y - y)\<close>, where \<open>x\<close> is the left edge of the cached box of
  column \<open>c\<close>, \<open>y\<close> the top edge of the cached box of row \<open>r\<close>, and \<open>pos\<close> the offset
  before the drop.
\<close>

theorem drop_offset:
  assumes row: "resolveIndex (probe s rect) (rows s) (rowsCoordsMap s) = Inr (Fin (real r))"
    and col: "resolveIndex (probe s rect) (cols s) (colsCoordsMap s) = Inr (Fin (real c))"
  shows "\<exists>rowBox colBox.
           rowsCoordsMap s (rows s ! (r - 1)) = Some rowBox \<and>
           colsCoordsMap s (cols s ! (c - 1)) = Some colBox \<and>
           fst (dragDropped s rect) = Inr () \<and>
           pos (snd (dragDropped s rect)) =
             (js_sub (js_add (box0 rect) (fst (pos s))) (box0 colBox),
              js_sub (js_add (box1 rect) (snd (pos s))) (box1 rowBox))"
proof -
  from drop_resolved [OF row col] obtain rb cb where
    "rowsCoordsMap s (rows s ! (r - 1)) = Some rb"
    "colsCoordsMap s (cols s ! (c - 1)) = Some cb"
    "dragDropped s rect =
             (Inr (),
              s\<lparr>index := shift_cols (shift_rows (index s) (Fin (real r))) (Fin (real c)),
                pos := (js_sub (js_add (box0 rect) (fst (pos s))) (box0 cb),
                        js_sub (js_add (box1 rect) (snd (pos s))) (box1 rb)),
                readyToAnimation := True\<rparr>)"
    by blast
  then show ?thesis by simp
qed

theorem drop_offset_witness:
  "fst (dragDropped example_grid example_rect) = Inr () \<and>
   pos (snd (dragDropped example_grid example_rect)) =
     (js_sub (js_add (Fin 0) (Fin 4.5)) (Fin 5), js_sub (js_add (Fin 0) (Fin 7)) (Fin 10))"
proof -
  from drop_offset [OF example_rows example_cols] obtain rowBox colBox where
    rb: "rowsCoordsMap example_grid (rows example_grid ! (2 - 1)) = Some rowBox" and
    cb: "colsCoordsMap example_grid (cols example_grid ! (2 - 1)) = Some colBox" and
    ok: "fst (dragDropped example_grid example_rect) = Inr ()" and
    p: "pos (snd (dragDropped example_grid example_rect)) =
             (js_sub (js_add (box0 example_rect) (fst (pos example_grid))) (box0 colBox),
              js_sub (js_add (box1 example_rect) (snd (pos example_grid))) (box1 rowBox))"
    by blast
  have "rowBox = (Fin 0, Fin 10, Fin 15, Fin 20)"
    using rb by (simp add: example_grid_def track_ids_def track_cache_def track_boxes_def)
  moreover have "colBox = (Fin 5, Fin 0, Fin 15, Fin 30)"
    using cb by (simp add: example_grid_def col_ids_def col_cache_def col_boxes_def)
  ultimately show ?thesis
    using ok p by (simp add: example_grid_def example_rect_def)
qed

text \<open>
  C8. For the component of the example after its drop: once \<^verbatim>\<open>ngOnDestroy\<close> has run,
  the resize observer is disconnected, but the frame callback of \<^verbatim>\<open>animationLoop\<close> is
  still registered; at the next frame it runs, sets \<open>dragEnded\<close> and registers itself
  again, and so at every later frame.
\<close>

theorem frame_callback_after_destroy:
  "\<not> observing torn_down \<and> frameRequests torn_down = 1 \<and> \<not> dragEnded torn_down \<and>
   dragEnded (animationFrame torn_down) \<and>
   frameRequests (animationFrame torn_down) = 1 \<and>
   frameRequests (animationFrame (animationFrame torn_down)) = 1"
proof -
  have start: "\<not> observing torn_down" "frameRequests torn_down = 1" "\<not> dragEnded torn_down"
    "readyToAnimation torn_down"
    by (simp_all add: torn_down_def ngOnDestroy_def example_drop) (simp_all add: example_grid_def)
  have step: "animationFrame torn_down = torn_down\<lparr>dragEnded := True, readyToAnimation := False\<rparr>"
    by (simp add: animationFrame_one [OF start(2)]) (simp add: animationLoop_def Let_def start)
  have one: "frameRequests (animationFrame torn_down) = 1"
    by (simp add: step start)
  have "frameRequests (animationFrame (animationFrame torn_down)) = 1"
    by (simp add: animationFrame_one [OF one]) (simp add: step animationLoop_def Let_def start)
  with start one show ?thesis
    by (simp add: step)
qed

text \<open>
  C9, as the claim states it, fails in its last part: with \<open>rowEnd\<close> below \<open>rowStart\<close> the
  row span is negative, not zero, the centre is finite, and the drop resolves.
\<close>

theorem reversed_span_counterexample:
  "js_lt (rowEnd (index reversed_grid)) (rowStart (index reversed_grid)) \<and>
   is_finite (box1 (probe reversed_grid example_rect)) \<and>
   fst (dragDropped reversed_grid example_rect) = Inr ()"
proof -
  have "resolveIndex (Fin 2.5, Fin 5, Fin 2.5, Fin 5) track_ids track_cache = Inr (Fin 1)"
    by (simp add: resolveIndex_cached [OF track_cache_map] hits_eval)
       (simp add: track_boxes_def boxes_meet_def boxEmpty_def boxes_overlap_def)
  then have rows: "resolveIndex (probe reversed_grid example_rect) (rows reversed_grid)
      (rowsCoordsMap reversed_grid) = Inr (Fin (real 1))"
    by (simp add: reversed_probe) (simp add: reversed_grid_def example_grid_def)
  have "resolveIndex (Fin 2.5, Fin 5, Fin 2.5, Fin 5) col_ids col_cache = Inr (Fin 1)"
    by (simp add: resolveIndex_cached [OF col_cache_map] hits_eval)
       (simp add: col_boxes_def boxes_meet_def boxEmpty_def boxes_overlap_def)
  then have cols: "resolveIndex (probe reversed_grid example_rect) (cols reversed_grid)
      (colsCoordsMap reversed_grid) = Inr (Fin (real 1))"
    by (simp add: reversed_probe) (simp add: reversed_grid_def example_grid_def)
  from drop_resolved [OF rows cols] have "fst (dragDropped reversed_grid example_rect) = Inr ()"
    by auto
  then show ?thesis
    by (simp add: reversed_probe) (simp add: reversed_grid_def)
qed

text \<open>
  C9, amended. For every component with \<open>rowEnd = rowStart\<close> the vertical coordinate of
  the probe box is not a finite number, whatever the rectangle and the offset; when the
  cached row boxes have finite top and bottom edges, the drop then ends in a
  \<^verbatim>\<open>TypeError\<close>. So \<open>rowEnd \<noteq> rowStart\<close> is necessary for a drop to resolve.
\<close>

theorem zero_span_center:
  assumes zero: "rowEnd (index s) = rowStart (index s)"
  shows "\<not> is_finite (box1 (probe s rect)) \<and>
         ((\<forall>t \<in> set (rows s). \<forall>b. rowsCoordsMap s t = Some b \<longrightarrow>
              is_finite (box1 b) \<and> is_finite (box3 b)) \<longrightarrow>
          fst (dragDropped s rect) = Inl TypeError)"
proof (intro conjI impI)
  obtain left top' right bottom where rect: "rect = (left, top', right, bottom)"
    by (cases rect) auto
  have "\<not> is_finite (js_div (js_sub bottom top') (js_sub (rowEnd (index s)) (rowStart (index s))))"
    using js_sub_self [of "rowStart (index s)"] zero
    by (intro js_div_zero_not_finite) simp
  then show v: "\<not> is_finite (box1 (probe s rect))"
    unfolding rect probe_vertical
    by (intro js_add_not_finite js_mul_not_finite)
  assume finite_rows: "\<forall>t \<in> set (rows s). \<forall>b. rowsCoordsMap s t = Some b \<longrightarrow>
              is_finite (box1 b) \<and> is_finite (box3 b)"
  show "fst (dragDropped s rect) = Inl TypeError"
  proof (cases "resolveIndex (probe s rect) (rows s) (rowsCoordsMap s)")
    case (Inl e)
    then show ?thesis
      by (simp add: dragDropped_eq error_is_TypeError)
  next
    case (Inr row)
    from resolveIndex_Inr [OF Inr] have cached: "\<forall>t \<in> set (rows s). rowsCoordsMap s t \<noteq> None"
      by simp
    define bs where "bs = map (\<lambda>t. the (rowsCoordsMap s t)) (rows s)"
    have m: "map (rowsCoordsMap s) (rows s) = map Some bs"
      using cached by (auto simp: bs_def)
    have "\<not> boxes_meet (probe s rect) (bs ! i)" if "i < length bs" for i
    proof -
      have "rows s ! i \<in> set (rows s)" using that by (simp add: bs_def)
      moreover have "rowsCoordsMap s (rows s ! i) = Some (bs ! i)"
        using that cached by (auto simp: bs_def)
      ultimately have "is_finite (box1 (bs ! i))" "is_finite (box3 (bs ! i))"
        using finite_rows by blast+
      with v probe_corners [of s rect] show ?thesis
        by (intro not_finite_no_meet)
    qed
    then have "resolveIndex (probe s rect) (rows s) (rowsCoordsMap s) = Inr PosInf"
      by (intro resolveIndex_none [OF m])
    then show ?thesis by (rule drop_row_PosInf_faults)
  qed
qed

theorem zero_span_center_witness:
  "rowEnd (index zero_span_grid) = rowStart (index zero_span_grid) \<and>
   \<not> is_finite (box1 (probe zero_span_grid example_rect)) \<and>
   fst (dragDropped zero_span_grid example_rect) = Inl TypeError"
proof -
  have zero: "rowEnd (index zero_span_grid) = rowStart (index zero_span_grid)"
    by (simp add: zero_span_grid_def)
  show ?thesis
    using zero_span_center [OF zero, of example_rect] zero_span_finite_rows zero by blast
qed

text \<open>
  C10. Whenever the row resolution of a drop returns a value \<open>r\<close> and the drop ends in a
  fault, be it in the column resolution or in a cache lookup, the component is left with
  \<open>rowStart = r\<close> and \<open>rowEnd\<close> shifted by \<open>r - rowStart\<close>: \<^verbatim>\<open>updateIndices\<close> has
  assigned the row fields before resolving the column and nothing restores them. The
  offset and the animation flag are as before the drop.
\<close>

theorem drop_fault_keeps_rows:
  assumes row: "resolveIndex (probe s rect) (rows s) (rowsCoordsMap s) = Inr r"
    and fault: "fst (dragDropped s rect) = Inl e"
  shows "rowStart (index (snd (dragDropped s rect))) = r \<and>
         rowEnd (index (snd (dragDropped s rect))) =
           js_add (rowEnd (index s)) (js_sub r (rowStart (index s))) \<and>
         rowStart (index (snd (updateIndices s (probe s rect)))) = r \<and>
         rowEnd (index (snd (updateIndices s (probe s rect)))) =
           js_add (rowEnd (index s)) (js_sub r (rowStart (index s))) \<and>
         pos (snd (dragDropped s rect)) = pos s \<and>
         readyToAnimation (snd (dragDropped s rect)) = readyToAnimation s"
  using fault
  by (auto simp: dragDropped_eq updateIndices_eq row shift_rows_def shift_cols_def
      split: sum.splits)


theorem drop_fault_keeps_rows_witness:
  "fst (dragDropped wide_grid example_rect) = Inl TypeError \<and>
   rowStart (index wide_grid) = Fin 1 \<and> rowEnd (index wide_grid) = Fin 3 \<and>
   rowStart (index (snd (dragDropped wide_grid example_rect))) = Fin 2 \<and>
   rowEnd (index (snd (dragDropped wide_grid example_rect))) = Fin 4 \<and>
   pos (snd (dragDropped wide_grid example_rect)) = pos wide_grid"
proof -
  have old: "rowStart (index wide_grid) = Fin 1" "rowEnd (index wide_grid) = Fin 3"
    by (simp_all add: wide_grid_def example_grid_def)
  show ?thesis
    using drop_fault_keeps_rows [OF wide_rows wide_drop_faults] wide_drop_faults
    by (simp add: old js_sub_def)
qed


end
